theory Spec2Isabelle
  imports Complex_Main "HOL-Library.Char_ord" "HOL-Library.Word"
begin

text \<open>
  A shallow embedding of the browser client of the deepfake-detection application: its
  typed fetch wrappers (the API service classes), the session handling of the auth
  provider, the notification and polling logic of the header and the pages, the profile
  password form, the upload guard and the report export of the admin page.

  Conventions. Where the code only compares, concatenates or passes on a TypeScript
  string, the string is a \<open>string\<close> (the bytes of its UTF-8 form); where the code counts
  or cuts it (\<open>length\<close>, \<open>substring\<close>, a regular expression), it is the list of its
  UTF-16 code units, as JavaScript has it. \<open>null\<close> and \<open>undefined\<close> are
  \<open>None\<close>; a component's state is a record and a handler maps the state before to the
  state after; toasts and saved files are collected in lists, most recent first. What the
  platform does (\<open>fetch\<close>, \<open>JSON.parse\<close>, \<open>JSON.stringify\<close>, number formatting, the
  clock) is a parameter of the functions that use it. Calls of \<open>localStorage\<close> and of the
  DOM are taken to succeed.
\<close>

section \<open>Strings as UTF-16 code units\<close>

text \<open>
  A JavaScript string is a sequence of 16-bit code units: \<open>length\<close> counts them,
  \<open>substring\<close> cuts between them and a regular expression without the \<open>u\<close> flag matches
  them one by one. \<open>units\<close> gives the code units of ASCII text, for the literals of the
  source.
\<close>

type_synonym utf16 = "16 word list"

definition unit :: "char \<Rightarrow> 16 word" where
  "unit c = of_nat (of_char c)"

definition units :: "string \<Rightarrow> utf16" where
  "units s = map unit s"

section \<open>Upload input guard (UploadPage.validateFile, Dashboard.handleFileSelect)\<close>

text \<open>
  A browser \<open>File\<close> as far as the guards read it: its name, its MIME type and its size in
  bytes (a non-negative integer).
\<close>

record upload_file =
  f_name :: string
  f_type :: string
  f_size :: nat

definition allowedTypes :: "string list" where
  "allowedTypes = [''video/mp4'', ''video/avi'', ''video/mov'', ''video/webm'', ''video/quicktime'']"

definition maxSize :: nat where
  "maxSize = 500 * 1024 * 1024"

text \<open>
  \<open>validateFile\<close> of the upload page. The size message embeds
  \<open>(file.size / 1024 / 1024).toFixed(1)\<close>, a floating-point rendering; it is taken as the
  parameter \<open>toFixed1\<close> (from the size in bytes to that text). \<open>None\<close> is \<open>null\<close>.
\<close>

definition validateFile :: "(nat \<Rightarrow> string) \<Rightarrow> upload_file \<Rightarrow> string option" where
  "validateFile toFixed1 file =
     (if f_type file \<notin> set allowedTypes then
        Some (''File type '' @ f_type file
              @ '' is not supported. Please use MP4, AVI, MOV, or WebM video files.'')
      else if f_size file > maxSize then
        Some (''File size ('' @ toFixed1 (f_size file) @ ''MB) exceeds the 500MB limit.'')
      else None)"

record toast =
  toast_title :: string
  toast_description :: string
  toast_variant :: string

text \<open>
  The part of the Dashboard component's state that \<open>handleFileSelect\<close> touches:
  the selected file, the toasts shown so far and the files handed to \<open>startUpload\<close>
  (most recent first).
\<close>

record dashboard =
  selectedFile :: "upload_file option"
  toasts :: "toast list"
  startedUploads :: "upload_file list"

definition handleFileSelect :: "upload_file \<Rightarrow> dashboard \<Rightarrow> dashboard" where
  "handleFileSelect file st =
     (if f_type file \<notin> set allowedTypes then
        st\<lparr>toasts := \<lparr>toast_title = ''Invalid file type'',
                        toast_description = ''Please select a video file (MP4, AVI, MOV, WebM)'',
                        toast_variant = ''destructive''\<rparr> # toasts st\<rparr>
      else if f_size file > maxSize then
        st\<lparr>toasts := \<lparr>toast_title = ''File too large'',
                        toast_description = ''Please select a file smaller than 500MB'',
                        toast_variant = ''destructive''\<rparr> # toasts st\<rparr>
      else st\<lparr>selectedFile := Some file, startedUploads := file # startedUploads st\<rparr>)"

section \<open>Profile password form (Profile.validatePassword, Profile.handleSave)\<close>








text \<open>
  The signed-in user as the components read it from the auth context
  (interface \<open>User\<close>: \<open>name\<close> is optional), and the profile row of interface
  \<open>UserProfile\<close>.
\<close>

record auth_user =
  auth_id :: string
  auth_email :: string
  auth_role :: string
  auth_name :: "string option"


text \<open>Interface \<open>UpdateProfileData\<close>: every field optional (\<open>None\<close> is an absent key).\<close>

record update_profile_data =
  upd_name :: "string option"
  upd_password :: "string option"
  upd_current_password :: "string option"










section \<open>JavaScript values, thrown errors and the fetch interface\<close>

text \<open>
  A JSON value as \<open>JSON.parse\<close> or \<open>response.json()\<close> delivers it. Numbers are kept
  abstract (type \<open>'n\<close>): the code only tests their truthiness and converts them to text,
  and both operations are parameters (record \<open>engine\<close>). \<open>JObj\<close> lists an object's
  own properties; \<open>undefined\<close> is \<open>None\<close> of \<open>'n json option\<close>.
\<close>

datatype 'n json =
  JNull
  | JBool bool
  | JNum 'n
  | JStr string
  | JArr "'n json list"
  | JObj "(string \<times> 'n json) list"

record 'n engine =
  numTruthy :: "'n \<Rightarrow> bool"
  numToString :: "'n \<Rightarrow> string"

text \<open>\<open>Array.prototype.join\<close> on strings (of bytes or of code units).\<close>

fun joinWith :: "'a list \<Rightarrow> 'a list list \<Rightarrow> 'a list" where
  "joinWith sep [] = []"
| "joinWith sep [x] = x"
| "joinWith sep (x # y # ys) = x @ sep @ joinWith sep (y # ys)"

text \<open>Truthiness (\<open>ToBoolean\<close>) of a value and of a possibly undefined value.\<close>

fun truthy :: "'n engine \<Rightarrow> 'n json \<Rightarrow> bool" where
  "truthy eng JNull = False"
| "truthy eng (JBool b) = b"
| "truthy eng (JNum n) = numTruthy eng n"
| "truthy eng (JStr s) = (s \<noteq> [])"
| "truthy eng (JArr xs) = True"
| "truthy eng (JObj kvs) = True"

fun truthyOpt :: "'n engine \<Rightarrow> 'n json option \<Rightarrow> bool" where
  "truthyOpt eng None = False"
| "truthyOpt eng (Some v) = truthy eng v"

text \<open>
  \<open>ToString\<close>, as the \<open>Error\<close> constructor and template literals apply it: an array
  joins its elements with commas, a \<open>null\<close> element giving the empty string; a plain
  object gives \<open>[object Object]\<close>.
\<close>

fun toString :: "'n engine \<Rightarrow> 'n json \<Rightarrow> string" where
  "toString eng JNull = ''null''"
| "toString eng (JBool b) = (if b then ''true'' else ''false'')"
| "toString eng (JNum n) = numToString eng n"
| "toString eng (JStr s) = s"
| "toString eng (JArr xs) =
     joinWith '','' (map (\<lambda>x. if x = JNull then [] else toString eng x) xs)"
| "toString eng (JObj kvs) = ''[object Object]''"

text \<open>
  A thrown value: an \<open>Error\<close> (or subclass) instance with its message, or some value that
  is not an \<open>Error\<close>. The catch blocks only distinguish these two.
\<close>

datatype thrown = ErrorObj string | NonError

text \<open>
  Reading a property that is not a built-in one (\<open>length\<close>, methods): an object yields
  its own property or \<open>undefined\<close>, \<open>null\<close> throws a \<open>TypeError\<close> (message as V8 words
  it), every other value yields \<open>undefined\<close>.
\<close>

definition nullAccessMessage :: "string \<Rightarrow> string" where
  "nullAccessMessage k = ''Cannot read properties of null (reading '' @ [CHR 0x27] @ k @ [CHR 0x27] @ '')''"

fun getProp :: "'n json \<Rightarrow> string \<Rightarrow> thrown + 'n json option" where
  "getProp JNull k = Inl (ErrorObj (nullAccessMessage k))"
| "getProp (JObj kvs) k = Inr (map_of kvs k)"
| "getProp v k = Inr None"

text \<open>Optional chaining \<open>v?.k\<close>: \<open>undefined\<close> on \<open>null\<close> instead of throwing.\<close>

fun optProp :: "'n json \<Rightarrow> string \<Rightarrow> 'n json option" where
  "optProp (JObj kvs) k = map_of kvs k"
| "optProp v k = None"

text \<open>Decimal text of a non-negative integer (an HTTP status, a count).\<close>

definition digitChar :: "nat \<Rightarrow> char" where
  "digitChar d = ''0123456789'' ! d"

fun showNat :: "nat \<Rightarrow> string" where
  "showNat n = (if n < 10 then [digitChar n] else showNat (n div 10) @ [digitChar (n mod 10)])"

declare showNat.simps [simp del]

text \<open>
  What reading a response body gives: JSON text parsing to a value; text that is not JSON,
  so that \<open>json()\<close> rejects with the given error while \<open>text()\<close> resolves; or a body
  that cannot be read at all, so that both reject.
\<close>

datatype 'n body_read = JsonBody "'n json" | NotJson thrown | Unreadable thrown

record 'n response =
  resp_ok :: bool
  resp_status :: nat
  resp_body :: "'n body_read"

datatype 'n fetch_outcome = Rejects thrown | Resolves "'n response"

text \<open>
  A request as handed to \<open>fetch\<close>: the URL and the init object. The body is either
  \<open>JSON.stringify\<close> of a value (kept as that value) or a \<open>FormData\<close> with its entries.
\<close>

datatype 'n req_body = JsonText "'n json" | FormData "(string \<times> upload_file) list"

record 'n request =
  req_url :: string
  req_method :: "string option"
  req_headers :: "(string \<times> string) list"
  req_body :: "'n req_body option"

type_synonym 'n net = "'n request \<Rightarrow> 'n fetch_outcome"

text \<open>
  One run of an asynchronous method: what its promise settles to (\<open>Inl\<close>: rejected with
  the thrown value, \<open>Inr\<close>: resolved) and the requests it handed to \<open>fetch\<close>, in order.
\<close>

record 'n api_run =
  returned :: "thrown + 'n json"
  fetched :: "'n request list"

definition API_BASE_URL :: string where
  "API_BASE_URL = ''http://localhost:5000/api''"

definition jsonHeaders :: "(string \<times> string) list" where
  "jsonHeaders = [(''Content-Type'', ''application/json'')]"

text \<open>\<open>await response.json()\<close>.\<close>

definition responseJson :: "'n response \<Rightarrow> thrown + 'n json" where
  "responseJson r =
     (case resp_body r of JsonBody j \<Rightarrow> Inr j | NotJson e \<Rightarrow> Inl e | Unreadable e \<Rightarrow> Inl e)"

definition httpErrorText :: "nat \<Rightarrow> string" where
  "httpErrorText status = ''HTTP error! status: '' @ showNat status"

text \<open>
  The services repeat two try-bodies verbatim. The first, after \<open>await fetch(...)\<close>:
  \<^verbatim>\<open>if (!response.ok) throw new Error(`HTTP error! status: ${response.status}`);
  return await response.json();\<close>
\<close>

definition afterFetchPlain :: "'n fetch_outcome \<Rightarrow> thrown + 'n json" where
  "afterFetchPlain outcome =
     (case outcome of
        Rejects e \<Rightarrow> Inl e
      | Resolves response \<Rightarrow>
          if \<not> resp_ok response then Inl (ErrorObj (httpErrorText (resp_status response)))
          else responseJson response)"

text \<open>
  The second:
  \<^verbatim>\<open>if (!response.ok) {
    const errorData = await response.json().catch(() => ({}));
    throw new Error(errorData.message || `HTTP error! status: ${response.status}`);
  }
  return await response.json();\<close>
\<close>

definition afterFetchDetailed :: "'n engine \<Rightarrow> 'n fetch_outcome \<Rightarrow> thrown + 'n json" where
  "afterFetchDetailed eng outcome =
     (case outcome of
        Rejects e \<Rightarrow> Inl e
      | Resolves response \<Rightarrow>
          if \<not> resp_ok response then
            (let errorData = (case responseJson response of Inr j \<Rightarrow> j | Inl e \<Rightarrow> JObj [])
             in case getProp errorData ''message'' of
                  Inl e \<Rightarrow> Inl e
                | Inr m \<Rightarrow>
                    Inl (ErrorObj (if truthyOpt eng m then toString eng (the m)
                                   else httpErrorText (resp_status response))))
          else responseJson response)"

text \<open>
  The catch block they share:
  \<^verbatim>\<open>return { status: 'error',
           message: error instanceof Error ? error.message : '<fallback>', <extra> };\<close>
\<close>

definition errorMessage :: "string \<Rightarrow> thrown \<Rightarrow> string" where
  "errorMessage fallback e = (case e of ErrorObj m \<Rightarrow> m | NonError \<Rightarrow> fallback)"

definition catchReport ::
  "string \<Rightarrow> (string \<times> 'n json) list \<Rightarrow> thrown + 'n json \<Rightarrow> thrown + 'n json" where
  "catchReport fallback extra r =
     (case r of
        Inr v \<Rightarrow> Inr v
      | Inl e \<Rightarrow>
          Inr (JObj ([(''status'', JStr ''error''), (''message'', JStr (errorMessage fallback e))]
                     @ extra)))"

text \<open>A property that is written only when its value is defined.\<close>

definition field :: "string \<Rightarrow> 'a option \<Rightarrow> ('a \<Rightarrow> 'n json) \<Rightarrow> (string \<times> 'n json) list" where
  "field k v f = (case v of None \<Rightarrow> [] | Some x \<Rightarrow> [(k, f x)])"

text \<open>
  \<open>URLSearchParams.prototype.toString\<close>: the pairs in \<open>application/x-www-form-urlencoded\<close>
  form, over the bytes of the strings.
\<close>

definition hexDigit :: "nat \<Rightarrow> char" where
  "hexDigit d = ''0123456789ABCDEF'' ! d"

definition formEncodeChar :: "char \<Rightarrow> string" where
  "formEncodeChar c =
     (if (CHR ''a'' \<le> c \<and> c \<le> CHR ''z'') \<or> (CHR ''A'' \<le> c \<and> c \<le> CHR ''Z'')
         \<or> (CHR ''0'' \<le> c \<and> c \<le> CHR ''9'') \<or> c \<in> {CHR ''*'', CHR ''-'', CHR ''.'', CHR ''_''}
      then [c]
      else if c = CHR '' '' then ''+''
      else [CHR ''%'', hexDigit (of_char c div 16), hexDigit (of_char c mod 16)])"

definition formEncode :: "string \<Rightarrow> string" where
  "formEncode s = concat (map formEncodeChar s)"

definition searchParams :: "(string \<times> string) list \<Rightarrow> string" where
  "searchParams ps = joinWith ''&'' (map (\<lambda>(k, v). formEncode k @ ''='' @ formEncode v) ps)"

section \<open>The API service classes\<close>

subsection \<open>Request payloads\<close>

text \<open>
  The typed objects the services serialise with \<open>JSON.stringify\<close>. An optional field that
  is \<open>undefined\<close> (\<open>None\<close>) is left out of the JSON text, as \<open>JSON.stringify\<close> does.
\<close>

record 'n create_analysis_request =
  car_user_id :: string
  car_file_name :: string
  car_prediction :: string
  car_confidence :: 'n
  car_processing_time :: "'n option"

definition createAnalysisJson :: "'n create_analysis_request \<Rightarrow> 'n json" where
  "createAnalysisJson d =
     JObj ([(''user_id'', JStr (car_user_id d)), (''file_name'', JStr (car_file_name d)),
            (''prediction'', JStr (car_prediction d)), (''confidence'', JNum (car_confidence d))]
           @ field ''processing_time'' (car_processing_time d) JNum)"

record 'n create_report_request =
  crr_user_id :: string
  crr_file_name :: string
  crr_prediction :: string
  crr_confidence :: 'n
  crr_frames_analyzed :: "'n option"
  crr_report_url :: string
  crr_model_version :: "string option"

definition createReportJson :: "'n create_report_request \<Rightarrow> 'n json" where
  "createReportJson d =
     JObj ([(''user_id'', JStr (crr_user_id d)), (''file_name'', JStr (crr_file_name d)),
            (''prediction'', JStr (crr_prediction d)), (''confidence'', JNum (crr_confidence d))]
           @ field ''frames_analyzed'' (crr_frames_analyzed d) JNum
           @ [(''report_url'', JStr (crr_report_url d))]
           @ field ''model_version'' (crr_model_version d) JStr)"

datatype action_type = Scan | NewsView

fun actionTypeText :: "action_type \<Rightarrow> string" where
  "actionTypeText Scan = ''scan''"
| "actionTypeText NewsView = ''news_view''"

record 'n create_history_request =
  chr_user_id :: string
  chr_action_type :: action_type
  chr_file_name :: "string option"
  chr_prediction :: "string option"
  chr_confidence :: "'n option"
  chr_news_title :: "string option"
  chr_news_url :: "string option"
  chr_report_url :: "string option"

definition createHistoryJson :: "'n create_history_request \<Rightarrow> 'n json" where
  "createHistoryJson d =
     JObj ([(''user_id'', JStr (chr_user_id d)),
            (''action_type'', JStr (actionTypeText (chr_action_type d)))]
           @ field ''file_name'' (chr_file_name d) JStr
           @ field ''prediction'' (chr_prediction d) JStr
           @ field ''confidence'' (chr_confidence d) JNum
           @ field ''news_title'' (chr_news_title d) JStr
           @ field ''news_url'' (chr_news_url d) JStr
           @ field ''report_url'' (chr_report_url d) JStr)"

record expert_request =
  er_user_id :: string
  er_name :: string
  er_email :: string
  er_file_reference :: "string option"
  er_description :: string

definition expertRequestJson :: "expert_request \<Rightarrow> 'n json" where
  "expertRequestJson d =
     JObj ([(''user_id'', JStr (er_user_id d)), (''name'', JStr (er_name d)),
            (''email'', JStr (er_email d))]
           @ field ''file_reference'' (er_file_reference d) JStr
           @ [(''description'', JStr (er_description d))])"

datatype complaint_type = IdentityMisuse | FakeNews | ExplicitDeepfake | Harassment

fun complaintTypeText :: "complaint_type \<Rightarrow> string" where
  "complaintTypeText IdentityMisuse = ''Identity Misuse''"
| "complaintTypeText FakeNews = ''Fake News''"
| "complaintTypeText ExplicitDeepfake = ''Explicit Deepfake''"
| "complaintTypeText Harassment = ''Harassment''"

record complaint =
  co_user_id :: string
  co_name :: string
  co_email :: string
  co_type :: complaint_type
  co_description :: string
  co_evidence_file :: "string option"

definition complaintJson :: "complaint \<Rightarrow> 'n json" where
  "complaintJson d =
     JObj ([(''user_id'', JStr (co_user_id d)), (''name'', JStr (co_name d)),
            (''email'', JStr (co_email d)), (''type'', JStr (complaintTypeText (co_type d))),
            (''description'', JStr (co_description d))]
           @ field ''evidence_file'' (co_evidence_file d) JStr)"

record subscription =
  sub_user_id :: "string option"
  sub_email :: string

definition subscriptionJson :: "subscription \<Rightarrow> 'n json" where
  "subscriptionJson d =
     JObj (field ''user_id'' (sub_user_id d) JStr @ [(''email'', JStr (sub_email d))])"

definition updateProfileJson :: "update_profile_data \<Rightarrow> 'n json" where
  "updateProfileJson d =
     JObj (field ''name'' (upd_name d) JStr
           @ field ''password'' (upd_password d) JStr
           @ field ''current_password'' (upd_current_password d) JStr)"

datatype forum_topic = Awareness | CyberSafety | AITechnology | LawPolicy | General

fun forumTopicText :: "forum_topic \<Rightarrow> string" where
  "forumTopicText Awareness = ''Awareness''"
| "forumTopicText CyberSafety = ''Cyber Safety''"
| "forumTopicText AITechnology = ''AI Technology''"
| "forumTopicText LawPolicy = ''Law & Policy''"
| "forumTopicText General = ''General''"

text \<open>The optional \<open>filters\<close> argument of \<open>AdminApiService.getAllReports\<close>.\<close>

record report_filters =
  flt_result :: "string option"
  flt_user_id :: "string option"
  flt_date_from :: "string option"
  flt_date_to :: "string option"

text \<open>An optional string is truthy when it is defined and not empty.\<close>

fun given :: "string option \<Rightarrow> bool" where
  "given None = False"
| "given (Some s) = (s \<noteq> [])"

subsection \<open>Methods\<close>

text \<open>
  Each method takes the engine parameters, its arguments and the network (what \<open>fetch\<close>
  does with a request) and yields its run. Methods are named \<open>Class_method\<close>.
\<close>

definition AdminApiService_resetUserData ::
  "'n engine \<Rightarrow> string \<Rightarrow> 'n net \<Rightarrow> 'n api_run" where
  "AdminApiService_resetUserData eng userId net =
     (let rq = \<lparr>req_url = API_BASE_URL @ ''/admin/reset-data'',
                req_method = Some ''POST'',
                req_headers = jsonHeaders,
                req_body = Some (JsonText (JObj [(''user_id'', JStr userId)]))\<rparr>
      in \<lparr>returned = catchReport ''Failed to reset user data'' [] (afterFetchDetailed eng (net rq)),
          fetched = [rq]\<rparr>)"

definition AdminApiService_getAllUsers ::
  "'n engine \<Rightarrow> string \<Rightarrow> 'n net \<Rightarrow> 'n api_run" where
  "AdminApiService_getAllUsers eng adminId net =
     (let rq = \<lparr>req_url = API_BASE_URL @ ''/admin/users?admin_id='' @ adminId,
                req_method = Some ''GET'',
                req_headers = jsonHeaders,
                req_body = None\<rparr>
      in \<lparr>returned = catchReport ''Failed to fetch users'' [] (afterFetchDetailed eng (net rq)),
          fetched = [rq]\<rparr>)"

definition AdminApiService_getUserDetails ::
  "'n engine \<Rightarrow> string \<Rightarrow> string \<Rightarrow> 'n net \<Rightarrow> 'n api_run" where
  "AdminApiService_getUserDetails eng userId adminId net =
     (let rq = \<lparr>req_url = API_BASE_URL @ ''/admin/users/'' @ userId @ ''?admin_id='' @ adminId,
                req_method = Some ''GET'',
                req_headers = jsonHeaders,
                req_body = None\<rparr>
      in \<lparr>returned = catchReport ''Failed to fetch user details'' [] (afterFetchDetailed eng (net rq)),
          fetched = [rq]\<rparr>)"

definition AdminApiService_resetUserDataSingle ::
  "'n engine \<Rightarrow> string \<Rightarrow> string \<Rightarrow> 'n net \<Rightarrow> 'n api_run" where
  "AdminApiService_resetUserDataSingle eng userId adminId net =
     (let rq = \<lparr>req_url = API_BASE_URL @ ''/admin/users/'' @ userId @ ''/reset'',
                req_method = Some ''POST'',
                req_headers = jsonHeaders,
                req_body = Some (JsonText (JObj [(''admin_id'', JStr adminId)]))\<rparr>
      in \<lparr>returned = catchReport ''Failed to reset user data'' [] (afterFetchDetailed eng (net rq)),
          fetched = [rq]\<rparr>)"

definition AdminApiService_deleteUser ::
  "'n engine \<Rightarrow> string \<Rightarrow> string \<Rightarrow> 'n net \<Rightarrow> 'n api_run" where
  "AdminApiService_deleteUser eng userId adminId net =
     (let rq = \<lparr>req_url = API_BASE_URL @ ''/admin/users/'' @ userId,
                req_method = Some ''DELETE'',
                req_headers = jsonHeaders,
                req_body = Some (JsonText (JObj [(''admin_id'', JStr adminId)]))\<rparr>
      in \<lparr>returned = catchReport ''Failed to delete user'' [] (afterFetchDetailed eng (net rq)),
          fetched = [rq]\<rparr>)"

text \<open>
  \<open>getAllReports\<close> appends one query parameter per truthy filter; \<open>filters?.x\<close> is
  \<open>undefined\<close> when no \<open>filters\<close> object is passed.
\<close>

definition filterPart :: "string \<Rightarrow> string option \<Rightarrow> string" where
  "filterPart k v = (if given v then ''&'' @ k @ ''='' @ the v else [])"

definition adminReportsUrl :: "string \<Rightarrow> report_filters option \<Rightarrow> string" where
  "adminReportsUrl adminId filters =
     API_BASE_URL @ ''/admin/reports?admin_id='' @ adminId
     @ filterPart ''result'' (case filters of None \<Rightarrow> None | Some f \<Rightarrow> flt_result f)
     @ filterPart ''user_id'' (case filters of None \<Rightarrow> None | Some f \<Rightarrow> flt_user_id f)
     @ filterPart ''date_from'' (case filters of None \<Rightarrow> None | Some f \<Rightarrow> flt_date_from f)
     @ filterPart ''date_to'' (case filters of None \<Rightarrow> None | Some f \<Rightarrow> flt_date_to f)"

definition AdminApiService_getAllReports ::
  "'n engine \<Rightarrow> string \<Rightarrow> (report_filters option) \<Rightarrow> 'n net \<Rightarrow> 'n api_run" where
  "AdminApiService_getAllReports eng adminId filters net =
     (let rq = \<lparr>req_url = adminReportsUrl adminId filters,
                req_method = Some ''GET'',
                req_headers = jsonHeaders,
                req_body = None\<rparr>
      in \<lparr>returned = catchReport ''Failed to fetch reports'' [] (afterFetchDetailed eng (net rq)),
          fetched = [rq]\<rparr>)"

definition AdminApiService_deleteReport ::
  "'n engine \<Rightarrow> string \<Rightarrow> string \<Rightarrow> 'n net \<Rightarrow> 'n api_run" where
  "AdminApiService_deleteReport eng reportId adminId net =
     (let rq = \<lparr>req_url = API_BASE_URL @ ''/admin/reports/'' @ reportId,
                req_method = Some ''DELETE'',
                req_headers = jsonHeaders,
                req_body = Some (JsonText (JObj [(''admin_id'', JStr adminId)]))\<rparr>
      in \<lparr>returned = catchReport ''Failed to delete report'' [] (afterFetchDetailed eng (net rq)),
          fetched = [rq]\<rparr>)"

definition SupportApiService_createExpertRequest ::
  "'n engine \<Rightarrow> expert_request \<Rightarrow> 'n net \<Rightarrow> 'n api_run" where
  "SupportApiService_createExpertRequest eng request net =
     (let rq = \<lparr>req_url = API_BASE_URL @ ''/support/expert-request'',
                req_method = Some ''POST'',
                req_headers = jsonHeaders,
                req_body = Some (JsonText (expertRequestJson request))\<rparr>
      in \<lparr>returned = catchReport ''Failed to create expert request'' [] (afterFetchDetailed eng (net rq)),
          fetched = [rq]\<rparr>)"

definition SupportApiService_createComplaint ::
  "'n engine \<Rightarrow> complaint \<Rightarrow> 'n net \<Rightarrow> 'n api_run" where
  "SupportApiService_createComplaint eng complaint net =
     (let rq = \<lparr>req_url = API_BASE_URL @ ''/support/complaint'',
                req_method = Some ''POST'',
                req_headers = jsonHeaders,
                req_body = Some (JsonText (complaintJson complaint))\<rparr>
      in \<lparr>returned = catchReport ''Failed to create complaint'' [] (afterFetchDetailed eng (net rq)),
          fetched = [rq]\<rparr>)"

definition trackParams :: "string option \<Rightarrow> string option \<Rightarrow> (string \<times> string) list" where
  "trackParams ident email =
     (if given ident then [(''id'', the ident)] else [])
     @ (if given email then [(''email'', the email)] else [])"

definition SupportApiService_trackComplaint ::
  "'n engine \<Rightarrow> (string option) \<Rightarrow> (string option) \<Rightarrow> 'n net \<Rightarrow> 'n api_run" where
  "SupportApiService_trackComplaint eng ident email net =
     (let rq = \<lparr>req_url = API_BASE_URL @ ''/support/track-complaint?'' @ searchParams (trackParams ident email),
                req_method = Some ''GET'',
                req_headers = jsonHeaders,
                req_body = None\<rparr>
      in \<lparr>returned = catchReport ''Failed to track complaint'' [] (afterFetchDetailed eng (net rq)),
          fetched = [rq]\<rparr>)"

definition SupportApiService_subscribeNewsletter ::
  "'n engine \<Rightarrow> subscription \<Rightarrow> 'n net \<Rightarrow> 'n api_run" where
  "SupportApiService_subscribeNewsletter eng subscription net =
     (let rq = \<lparr>req_url = API_BASE_URL @ ''/support/subscribe'',
                req_method = Some ''POST'',
                req_headers = jsonHeaders,
                req_body = Some (JsonText (subscriptionJson subscription))\<rparr>
      in \<lparr>returned = catchReport ''Failed to subscribe'' [] (afterFetchDetailed eng (net rq)),
          fetched = [rq]\<rparr>)"

definition SupportApiService_getDailyTips ::
  "'n engine \<Rightarrow> 'n net \<Rightarrow> 'n api_run" where
  "SupportApiService_getDailyTips eng net =
     (let rq = \<lparr>req_url = API_BASE_URL @ ''/support/daily-tips'',
                req_method = Some ''GET'',
                req_headers = jsonHeaders,
                req_body = None\<rparr>
      in \<lparr>returned = catchReport ''Failed to fetch daily tips'' [(''tips'', JArr [])] (afterFetchDetailed eng (net rq)),
          fetched = [rq]\<rparr>)"

text \<open>
  The \<open>RequestInit\<close> options of the private \<open>makeRequest\<close> helpers. The helper builds
  \<^verbatim>\<open>{ headers: { 'Content-Type': 'application/json', ...options.headers }, ...options }\<close>:
  a \<open>headers\<close> entry of \<open>options\<close> replaces the merged headers, since \<open>...options\<close>
  comes last.
\<close>

record 'n request_init =
  init_method :: "string option"
  init_headers :: "(string \<times> string) list option"
  init_body :: "'n req_body option"

definition noOptions :: "'n request_init" where
  "noOptions = \<lparr>init_method = None, init_headers = None, init_body = None\<rparr>"

definition DeepfakeApiService_makeRequest ::
  "'n engine \<Rightarrow> string \<Rightarrow> 'n request_init \<Rightarrow> 'n net \<Rightarrow> 'n api_run" where
  "DeepfakeApiService_makeRequest eng endpoint options net =
     (let rq = \<lparr>req_url = API_BASE_URL @ endpoint,
                req_method = init_method options,
                req_headers = (case init_headers options of None \<Rightarrow> jsonHeaders | Some h \<Rightarrow> h),
                req_body = init_body options\<rparr>
      in \<lparr>returned = catchReport ''Unknown error occurred'' [] (afterFetchPlain (net rq)),
          fetched = [rq]\<rparr>)"

definition DeepfakeApiService_healthCheck :: "'n engine \<Rightarrow> 'n net \<Rightarrow> 'n api_run" where
  "DeepfakeApiService_healthCheck eng net = DeepfakeApiService_makeRequest eng ''/health'' noOptions net"

definition DeepfakeApiService_predictVideo :: "'n engine \<Rightarrow> upload_file \<Rightarrow> 'n net \<Rightarrow> 'n api_run" where
  "DeepfakeApiService_predictVideo eng file net =
     (let formData = [(''file'', file)];
          rq = \<lparr>req_url = API_BASE_URL @ ''/predict'',
                req_method = Some ''POST'',
                req_headers = [],
                req_body = Some (FormData formData)\<rparr>
      in \<lparr>returned = catchReport ''Prediction failed'' [] (afterFetchPlain (net rq)),
          fetched = [rq]\<rparr>)"

text \<open>
  \<open>trainModel\<close>, \<open>loadModel\<close> and \<open>evaluateModel\<close> have default arguments
  (\<open>'../UADFV'\<close>, \<open>30\<close>, \<open>'models/deepfake_model_50e.h5'\<close>); the parameters here are the
  values after the defaults have been filled in.
\<close>

definition postJson :: "'n json \<Rightarrow> 'n request_init" where
  "postJson v = \<lparr>init_method = Some ''POST'', init_headers = None, init_body = Some (JsonText v)\<rparr>"

definition DeepfakeApiService_trainModel :: "'n engine \<Rightarrow> string \<Rightarrow> 'n \<Rightarrow> 'n net \<Rightarrow> 'n api_run" where
  "DeepfakeApiService_trainModel eng datasetPath epochs net =
     DeepfakeApiService_makeRequest eng ''/train''
       (postJson (JObj [(''dataset_path'', JStr datasetPath), (''epochs'', JNum epochs)])) net"

definition DeepfakeApiService_loadModel :: "'n engine \<Rightarrow> string \<Rightarrow> 'n net \<Rightarrow> 'n api_run" where
  "DeepfakeApiService_loadModel eng modelPath net =
     DeepfakeApiService_makeRequest eng ''/load-model''
       (postJson (JObj [(''model_path'', JStr modelPath)])) net"

definition DeepfakeApiService_getModelInfo :: "'n engine \<Rightarrow> 'n net \<Rightarrow> 'n api_run" where
  "DeepfakeApiService_getModelInfo eng net =
     DeepfakeApiService_makeRequest eng ''/model-info'' noOptions net"

definition DeepfakeApiService_evaluateModel :: "'n engine \<Rightarrow> string \<Rightarrow> 'n net \<Rightarrow> 'n api_run" where
  "DeepfakeApiService_evaluateModel eng datasetPath net =
     DeepfakeApiService_makeRequest eng ''/evaluate''
       (postJson (JObj [(''dataset_path'', JStr datasetPath)])) net"

definition AnalysesApiService_createAnalysis ::
  "'n engine \<Rightarrow> ('n create_analysis_request) \<Rightarrow> 'n net \<Rightarrow> 'n api_run" where
  "AnalysesApiService_createAnalysis eng data net =
     (let rq = \<lparr>req_url = API_BASE_URL @ ''/analyses'',
                req_method = Some ''POST'',
                req_headers = jsonHeaders,
                req_body = Some (JsonText (createAnalysisJson data))\<rparr>
      in \<lparr>returned = catchReport ''Failed to record analysis'' [] (afterFetchDetailed eng (net rq)),
          fetched = [rq]\<rparr>)"

definition ReportsApiService_getUserReports ::
  "'n engine \<Rightarrow> string \<Rightarrow> 'n net \<Rightarrow> 'n api_run" where
  "ReportsApiService_getUserReports eng userId net =
     (let rq = \<lparr>req_url = API_BASE_URL @ ''/reports/'' @ userId,
                req_method = Some ''GET'',
                req_headers = jsonHeaders,
                req_body = None\<rparr>
      in \<lparr>returned = catchReport ''Failed to fetch reports'' [] (afterFetchPlain (net rq)),
          fetched = [rq]\<rparr>)"

definition ReportsApiService_getAllReports ::
  "'n engine \<Rightarrow> string \<Rightarrow> 'n net \<Rightarrow> 'n api_run" where
  "ReportsApiService_getAllReports eng userId net =
     (let rq = \<lparr>req_url = API_BASE_URL @ ''/reports?user_id='' @ userId,
                req_method = Some ''GET'',
                req_headers = jsonHeaders,
                req_body = None\<rparr>
      in \<lparr>returned = catchReport ''Failed to fetch reports'' [] (afterFetchPlain (net rq)),
          fetched = [rq]\<rparr>)"

definition ReportsApiService_createReport ::
  "'n engine \<Rightarrow> ('n create_report_request) \<Rightarrow> 'n net \<Rightarrow> 'n api_run" where
  "ReportsApiService_createReport eng data net =
     (let rq = \<lparr>req_url = API_BASE_URL @ ''/reports'',
                req_method = Some ''POST'',
                req_headers = jsonHeaders,
                req_body = Some (JsonText (createReportJson data))\<rparr>
      in \<lparr>returned = catchReport ''Failed to save report'' [] (afterFetchDetailed eng (net rq)),
          fetched = [rq]\<rparr>)"

definition HistoryApiService_getHistory ::
  "'n engine \<Rightarrow> string \<Rightarrow> 'n net \<Rightarrow> 'n api_run" where
  "HistoryApiService_getHistory eng userId net =
     (let rq = \<lparr>req_url = API_BASE_URL @ ''/history/'' @ userId,
                req_method = Some ''GET'',
                req_headers = jsonHeaders,
                req_body = None\<rparr>
      in \<lparr>returned = catchReport ''Failed to fetch history'' [] (afterFetchPlain (net rq)),
          fetched = [rq]\<rparr>)"

definition HistoryApiService_createHistory ::
  "'n engine \<Rightarrow> ('n create_history_request) \<Rightarrow> 'n net \<Rightarrow> 'n api_run" where
  "HistoryApiService_createHistory eng data net =
     (let rq = \<lparr>req_url = API_BASE_URL @ ''/history'',
                req_method = Some ''POST'',
                req_headers = jsonHeaders,
                req_body = Some (JsonText (createHistoryJson data))\<rparr>
      in \<lparr>returned = catchReport ''Failed to record history'' [] (afterFetchDetailed eng (net rq)),
          fetched = [rq]\<rparr>)"

definition BlogsApiService_getAllBlogs ::
  "'n engine \<Rightarrow> 'n net \<Rightarrow> 'n api_run" where
  "BlogsApiService_getAllBlogs eng net =
     (let rq = \<lparr>req_url = API_BASE_URL @ ''/blogs'',
                req_method = Some ''GET'',
                req_headers = jsonHeaders,
                req_body = None\<rparr>
      in \<lparr>returned = catchReport ''Failed to fetch blogs'' [(''blogs'', JArr [])] (afterFetchDetailed eng (net rq)),
          fetched = [rq]\<rparr>)"

definition BlogsApiService_getBlogById ::
  "'n engine \<Rightarrow> string \<Rightarrow> 'n net \<Rightarrow> 'n api_run" where
  "BlogsApiService_getBlogById eng blogId net =
     (let rq = \<lparr>req_url = API_BASE_URL @ ''/blogs/'' @ blogId,
                req_method = Some ''GET'',
                req_headers = jsonHeaders,
                req_body = None\<rparr>
      in \<lparr>returned = catchReport ''Failed to fetch blog'' [] (afterFetchDetailed eng (net rq)),
          fetched = [rq]\<rparr>)"

definition ForumApiService_makeRequest ::
  "'n engine \<Rightarrow> string \<Rightarrow> 'n request_init \<Rightarrow> 'n net \<Rightarrow> 'n api_run" where
  "ForumApiService_makeRequest eng endpoint options net =
     (let rq = \<lparr>req_url = API_BASE_URL @ endpoint,
                req_method = init_method options,
                req_headers = (case init_headers options of None \<Rightarrow> jsonHeaders | Some h \<Rightarrow> h),
                req_body = init_body options\<rparr>
      in \<lparr>returned = catchReport ''Unknown error occurred'' [] (afterFetchPlain (net rq)),
          fetched = [rq]\<rparr>)"

text \<open>
  \<open>getPosts\<close> has its own try-body: on a non-ok response it first awaits
  \<open>response.text()\<close> (which rejects when the body cannot be read), logs it and throws the
  status error.
\<close>

definition postsParams :: "string option \<Rightarrow> string option \<Rightarrow> (string \<times> string) list" where
  "postsParams search topic =
     (if given search then [(''search'', the search)] else [])
     @ (if given topic then [(''topic'', the topic)] else [])"

definition postsEndpoint :: "string option \<Rightarrow> string option \<Rightarrow> string" where
  "postsEndpoint search topic =
     (let queryString = searchParams (postsParams search topic)
      in ''/forum/posts'' @ (if queryString \<noteq> [] then ''?'' @ queryString else []))"

definition afterFetchPosts :: "'n fetch_outcome \<Rightarrow> thrown + 'n json" where
  "afterFetchPosts outcome =
     (case outcome of
        Rejects e \<Rightarrow> Inl e
      | Resolves response \<Rightarrow>
          if \<not> resp_ok response then
            (case resp_body response of
               Unreadable e \<Rightarrow> Inl e
             | _ \<Rightarrow> Inl (ErrorObj (httpErrorText (resp_status response))))
          else responseJson response)"

definition ForumApiService_getPosts ::
  "'n engine \<Rightarrow> string option \<Rightarrow> string option \<Rightarrow> 'n net \<Rightarrow> 'n api_run" where
  "ForumApiService_getPosts eng search topic net =
     (let rq = \<lparr>req_url = API_BASE_URL @ postsEndpoint search topic,
                req_method = Some ''GET'',
                req_headers = jsonHeaders,
                req_body = None\<rparr>
      in \<lparr>returned =
            catchReport ''Failed to connect to server. Please ensure the backend is running.''
              [(''posts'', JArr [])] (afterFetchPosts (net rq)),
          fetched = [rq]\<rparr>)"

definition withJson :: "string \<Rightarrow> 'n json \<Rightarrow> 'n request_init" where
  "withJson m v = \<lparr>init_method = Some m, init_headers = None, init_body = Some (JsonText v)\<rparr>"

definition withMethod :: "string \<Rightarrow> 'n request_init" where
  "withMethod m = \<lparr>init_method = Some m, init_headers = None, init_body = None\<rparr>"

definition ForumApiService_createPost ::
  "'n engine \<Rightarrow> string \<Rightarrow> forum_topic \<Rightarrow> string \<Rightarrow> 'n net \<Rightarrow> 'n api_run" where
  "ForumApiService_createPost eng user_id topic content net =
     ForumApiService_makeRequest eng ''/forum/posts''
       (withJson ''POST'' (JObj [(''user_id'', JStr user_id), (''topic'', JStr (forumTopicText topic)),
                                 (''content'', JStr content)])) net"

definition ForumApiService_likePost :: "'n engine \<Rightarrow> string \<Rightarrow> 'n net \<Rightarrow> 'n api_run" where
  "ForumApiService_likePost eng post_id net =
     ForumApiService_makeRequest eng (''/forum/posts/'' @ post_id @ ''/like'') (withMethod ''PUT'') net"

definition ForumApiService_deletePost :: "'n engine \<Rightarrow> string \<Rightarrow> string \<Rightarrow> 'n net \<Rightarrow> 'n api_run" where
  "ForumApiService_deletePost eng post_id user_id net =
     ForumApiService_makeRequest eng (''/forum/posts/'' @ post_id)
       (withJson ''DELETE'' (JObj [(''user_id'', JStr user_id)])) net"

definition ForumApiService_getComments :: "'n engine \<Rightarrow> string \<Rightarrow> 'n net \<Rightarrow> 'n api_run" where
  "ForumApiService_getComments eng post_id net =
     ForumApiService_makeRequest eng (''/forum/posts/'' @ post_id @ ''/comments'')
       (withMethod ''GET'') net"

definition ForumApiService_createComment ::
  "'n engine \<Rightarrow> string \<Rightarrow> string \<Rightarrow> string \<Rightarrow> 'n net \<Rightarrow> 'n api_run" where
  "ForumApiService_createComment eng post_id user_id content net =
     ForumApiService_makeRequest eng (''/forum/posts/'' @ post_id @ ''/comments'')
       (withJson ''POST'' (JObj [(''user_id'', JStr user_id), (''content'', JStr content)])) net"

definition ForumApiService_deleteComment :: "'n engine \<Rightarrow> string \<Rightarrow> string \<Rightarrow> 'n net \<Rightarrow> 'n api_run" where
  "ForumApiService_deleteComment eng comment_id user_id net =
     ForumApiService_makeRequest eng (''/forum/comments/'' @ comment_id)
       (withJson ''DELETE'' (JObj [(''user_id'', JStr user_id)])) net"

definition ProfileApiService_getProfile ::
  "'n engine \<Rightarrow> string \<Rightarrow> 'n net \<Rightarrow> 'n api_run" where
  "ProfileApiService_getProfile eng userId net =
     (let rq = \<lparr>req_url = API_BASE_URL @ ''/profile/'' @ userId,
                req_method = Some ''GET'',
                req_headers = jsonHeaders,
                req_body = None\<rparr>
      in \<lparr>returned = catchReport ''Failed to fetch profile'' [] (afterFetchDetailed eng (net rq)),
          fetched = [rq]\<rparr>)"

definition ProfileApiService_updateProfile ::
  "'n engine \<Rightarrow> string \<Rightarrow> update_profile_data \<Rightarrow> 'n net \<Rightarrow> 'n api_run" where
  "ProfileApiService_updateProfile eng userId data net =
     (let rq = \<lparr>req_url = API_BASE_URL @ ''/profile/'' @ userId,
                req_method = Some ''PUT'',
                req_headers = jsonHeaders,
                req_body = Some (JsonText (updateProfileJson data))\<rparr>
      in \<lparr>returned = catchReport ''Failed to update profile'' [] (afterFetchDetailed eng (net rq)),
          fetched = [rq]\<rparr>)"

text \<open>
  \<open>getDashboard\<close> rebuilds the response object. \<open>data.status\<close> throws when the body is
  the JSON \<open>null\<close>; a property whose value is \<open>undefined\<close> reads as absent, and
  \<open>x || []\<close> replaces a falsy \<open>x\<close> by the empty array.
\<close>

definition orEmptyArray :: "'n engine \<Rightarrow> 'n json option \<Rightarrow> 'n json" where
  "orEmptyArray eng v = (if truthyOpt eng v then the v else JArr [])"

definition dashboardObject :: "'n engine \<Rightarrow> 'n json \<Rightarrow> 'n json option \<Rightarrow> 'n json" where
  "dashboardObject eng data status =
     JObj (field ''status'' status id
           @ (if status = Some (JStr ''success'') then
                [(''data'',
                  JObj (field ''totalAnalyses'' (optProp data ''totalAnalyses'') id
                        @ field ''deepfakesDetected'' (optProp data ''deepfakesDetected'') id
                        @ field ''accuracyRate'' (optProp data ''accuracyRate'') id
                        @ field ''avgProcessingTime'' (optProp data ''avgProcessingTime'') id
                        @ [(''recentAnalyses'', orEmptyArray eng (optProp data ''recentAnalyses'')),
                           (''notifications'', orEmptyArray eng (optProp data ''notifications''))]))]
              else [])
           @ field ''message'' (optProp data ''message'') id)"

definition afterFetchDashboard :: "'n engine \<Rightarrow> 'n fetch_outcome \<Rightarrow> thrown + 'n json" where
  "afterFetchDashboard eng outcome =
     (case outcome of
        Rejects e \<Rightarrow> Inl e
      | Resolves response \<Rightarrow>
          if \<not> resp_ok response then Inl (ErrorObj (httpErrorText (resp_status response)))
          else (case responseJson response of
                  Inl e \<Rightarrow> Inl e
                | Inr data \<Rightarrow>
                    (case getProp data ''status'' of
                       Inl e \<Rightarrow> Inl e
                     | Inr status \<Rightarrow> Inr (dashboardObject eng data status))))"

definition DashboardApiService_getDashboard :: "'n engine \<Rightarrow> string \<Rightarrow> 'n net \<Rightarrow> 'n api_run" where
  "DashboardApiService_getDashboard eng userId net =
     (let rq = \<lparr>req_url = API_BASE_URL @ ''/dashboard/'' @ userId,
                req_method = Some ''GET'',
                req_headers = jsonHeaders,
                req_body = None\<rparr>
      in \<lparr>returned = catchReport ''Failed to fetch dashboard data'' [] (afterFetchDashboard eng (net rq)),
          fetched = [rq]\<rparr>)"

definition DashboardApiService_getNotifications ::
  "'n engine \<Rightarrow> string \<Rightarrow> 'n net \<Rightarrow> 'n api_run" where
  "DashboardApiService_getNotifications eng userId net =
     (let rq = \<lparr>req_url = API_BASE_URL @ ''/notifications/'' @ userId,
                req_method = Some ''GET'',
                req_headers = jsonHeaders,
                req_body = None\<rparr>
      in \<lparr>returned = catchReport ''Failed to fetch notifications'' [] (afterFetchPlain (net rq)),
          fetched = [rq]\<rparr>)"

definition DashboardApiService_markNotificationRead ::
  "'n engine \<Rightarrow> string \<Rightarrow> string \<Rightarrow> 'n net \<Rightarrow> 'n api_run" where
  "DashboardApiService_markNotificationRead eng notificationId userId net =
     (let rq = \<lparr>req_url = API_BASE_URL @ ''/notifications/'' @ notificationId,
                req_method = Some ''PATCH'',
                req_headers = jsonHeaders,
                req_body = Some (JsonText (JObj [(''user_id'', JStr userId)]))\<rparr>
      in \<lparr>returned = catchReport ''Failed to update notification'' [] (afterFetchDetailed eng (net rq)),
          fetched = [rq]\<rparr>)"

subsection \<open>Calls\<close>

text \<open>
  One constructor per method of the ten service classes, with the method's arguments, and
  the dispatcher that runs a call.
\<close>

datatype 'n api_call =
    Call_Admin_resetUserData string
  | Call_Admin_getAllUsers string
  | Call_Admin_getUserDetails string string
  | Call_Admin_resetUserDataSingle string string
  | Call_Admin_deleteUser string string
  | Call_Admin_getAllReports string "report_filters option"
  | Call_Admin_deleteReport string string
  | Call_Support_createExpertRequest expert_request
  | Call_Support_createComplaint complaint
  | Call_Support_trackComplaint "string option" "string option"
  | Call_Support_subscribeNewsletter subscription
  | Call_Support_getDailyTips
  | Call_Deepfake_makeRequest string "'n request_init"
  | Call_Deepfake_healthCheck
  | Call_Deepfake_predictVideo upload_file
  | Call_Deepfake_trainModel string "'n"
  | Call_Deepfake_loadModel string
  | Call_Deepfake_getModelInfo
  | Call_Deepfake_evaluateModel string
  | Call_Analyses_createAnalysis "'n create_analysis_request"
  | Call_Reports_getUserReports string
  | Call_Reports_getAllReports string
  | Call_Reports_createReport "'n create_report_request"
  | Call_History_getHistory string
  | Call_History_createHistory "'n create_history_request"
  | Call_Blogs_getAllBlogs
  | Call_Blogs_getBlogById string
  | Call_Forum_makeRequest string "'n request_init"
  | Call_Forum_getPosts "string option" "string option"
  | Call_Forum_createPost string forum_topic string
  | Call_Forum_likePost string
  | Call_Forum_deletePost string string
  | Call_Forum_getComments string
  | Call_Forum_createComment string string string
  | Call_Forum_deleteComment string string
  | Call_Profile_getProfile string
  | Call_Profile_updateProfile string update_profile_data
  | Call_Dashboard_getDashboard string
  | Call_Dashboard_getNotifications string
  | Call_Dashboard_markNotificationRead string string

fun invoke :: "'n engine \<Rightarrow> 'n api_call \<Rightarrow> 'n net \<Rightarrow> 'n api_run" where
  "invoke eng (Call_Admin_resetUserData a) net = AdminApiService_resetUserData eng a net"
| "invoke eng (Call_Admin_getAllUsers a) net = AdminApiService_getAllUsers eng a net"
| "invoke eng (Call_Admin_getUserDetails a b) net = AdminApiService_getUserDetails eng a b net"
| "invoke eng (Call_Admin_resetUserDataSingle a b) net = AdminApiService_resetUserDataSingle eng a b net"
| "invoke eng (Call_Admin_deleteUser a b) net = AdminApiService_deleteUser eng a b net"
| "invoke eng (Call_Admin_getAllReports a b) net = AdminApiService_getAllReports eng a b net"
| "invoke eng (Call_Admin_deleteReport a b) net = AdminApiService_deleteReport eng a b net"
| "invoke eng (Call_Support_createExpertRequest a) net = SupportApiService_createExpertRequest eng a net"
| "invoke eng (Call_Support_createComplaint a) net = SupportApiService_createComplaint eng a net"
| "invoke eng (Call_Support_trackComplaint a b) net = SupportApiService_trackComplaint eng a b net"
| "invoke eng (Call_Support_subscribeNewsletter a) net = SupportApiService_subscribeNewsletter eng a net"
| "invoke eng Call_Support_getDailyTips net = SupportApiService_getDailyTips eng net"
| "invoke eng (Call_Deepfake_makeRequest a b) net = DeepfakeApiService_makeRequest eng a b net"
| "invoke eng Call_Deepfake_healthCheck net = DeepfakeApiService_healthCheck eng net"
| "invoke eng (Call_Deepfake_predictVideo a) net = DeepfakeApiService_predictVideo eng a net"
| "invoke eng (Call_Deepfake_trainModel a b) net = DeepfakeApiService_trainModel eng a b net"
| "invoke eng (Call_Deepfake_loadModel a) net = DeepfakeApiService_loadModel eng a net"
| "invoke eng Call_Deepfake_getModelInfo net = DeepfakeApiService_getModelInfo eng net"
| "invoke eng (Call_Deepfake_evaluateModel a) net = DeepfakeApiService_evaluateModel eng a net"
| "invoke eng (Call_Analyses_createAnalysis a) net = AnalysesApiService_createAnalysis eng a net"
| "invoke eng (Call_Reports_getUserReports a) net = ReportsApiService_getUserReports eng a net"
| "invoke eng (Call_Reports_getAllReports a) net = ReportsApiService_getAllReports eng a net"
| "invoke eng (Call_Reports_createReport a) net = ReportsApiService_createReport eng a net"
| "invoke eng (Call_History_getHistory a) net = HistoryApiService_getHistory eng a net"
| "invoke eng (Call_History_createHistory a) net = HistoryApiService_createHistory eng a net"
| "invoke eng Call_Blogs_getAllBlogs net = BlogsApiService_getAllBlogs eng net"
| "invoke eng (Call_Blogs_getBlogById a) net = BlogsApiService_getBlogById eng a net"
| "invoke eng (Call_Forum_makeRequest a b) net = ForumApiService_makeRequest eng a b net"
| "invoke eng (Call_Forum_getPosts a b) net = ForumApiService_getPosts eng a b net"
| "invoke eng (Call_Forum_createPost a b c) net = ForumApiService_createPost eng a b c net"
| "invoke eng (Call_Forum_likePost a) net = ForumApiService_likePost eng a net"
| "invoke eng (Call_Forum_deletePost a b) net = ForumApiService_deletePost eng a b net"
| "invoke eng (Call_Forum_getComments a) net = ForumApiService_getComments eng a net"
| "invoke eng (Call_Forum_createComment a b c) net = ForumApiService_createComment eng a b c net"
| "invoke eng (Call_Forum_deleteComment a b) net = ForumApiService_deleteComment eng a b net"
| "invoke eng (Call_Profile_getProfile a) net = ProfileApiService_getProfile eng a net"
| "invoke eng (Call_Profile_updateProfile a b) net = ProfileApiService_updateProfile eng a b net"
| "invoke eng (Call_Dashboard_getDashboard a) net = DashboardApiService_getDashboard eng a net"
| "invoke eng (Call_Dashboard_getNotifications a) net = DashboardApiService_getNotifications eng a net"
| "invoke eng (Call_Dashboard_markNotificationRead a b) net = DashboardApiService_markNotificationRead eng a b net"

text \<open>The two private helpers, which pass on whatever options their caller gives.\<close>

fun privateHelper :: "'n api_call \<Rightarrow> bool" where
  "privateHelper (Call_Deepfake_makeRequest a b) = True"
| "privateHelper (Call_Forum_makeRequest a b) = True"
| "privateHelper c = False"

text \<open>
  A fetch fails when its promise rejects or resolves with a response that is not \<open>ok\<close>.
\<close>

definition failedFetch :: "'n fetch_outcome \<Rightarrow> bool" where
  "failedFetch outcome = (case outcome of Rejects e \<Rightarrow> True | Resolves r \<Rightarrow> \<not> resp_ok r)"

text \<open>
  The try-body that a method runs after its \<open>fetch\<close>: the plain one (thrown status
  error), the detailed one (thrown \<open>errorData.message\<close>), the one of \<open>getPosts\<close> and the
  one of \<open>getDashboard\<close>.
\<close>

datatype try_body = PlainBody | DetailedBody | PostsBody | DashboardBody

fun tryBodyOf :: "'n api_call \<Rightarrow> try_body" where
  "tryBodyOf (Call_Deepfake_makeRequest a b) = PlainBody"
| "tryBodyOf Call_Deepfake_healthCheck = PlainBody"
| "tryBodyOf (Call_Deepfake_predictVideo a) = PlainBody"
| "tryBodyOf (Call_Deepfake_trainModel a b) = PlainBody"
| "tryBodyOf (Call_Deepfake_loadModel a) = PlainBody"
| "tryBodyOf Call_Deepfake_getModelInfo = PlainBody"
| "tryBodyOf (Call_Deepfake_evaluateModel a) = PlainBody"
| "tryBodyOf (Call_Reports_getUserReports a) = PlainBody"
| "tryBodyOf (Call_Reports_getAllReports a) = PlainBody"
| "tryBodyOf (Call_History_getHistory a) = PlainBody"
| "tryBodyOf (Call_Forum_makeRequest a b) = PlainBody"
| "tryBodyOf (Call_Forum_createPost a b c) = PlainBody"
| "tryBodyOf (Call_Forum_likePost a) = PlainBody"
| "tryBodyOf (Call_Forum_deletePost a b) = PlainBody"
| "tryBodyOf (Call_Forum_getComments a) = PlainBody"
| "tryBodyOf (Call_Forum_createComment a b c) = PlainBody"
| "tryBodyOf (Call_Forum_deleteComment a b) = PlainBody"
| "tryBodyOf (Call_Dashboard_getNotifications a) = PlainBody"
| "tryBodyOf (Call_Forum_getPosts a b) = PostsBody"
| "tryBodyOf (Call_Dashboard_getDashboard a) = DashboardBody"
| "tryBodyOf c = DetailedBody"

text \<open>
  The failed fetches after which the reported message is empty. For every method: the
  fetch rejected with an \<open>Error\<close> whose message is empty. For a method with the detailed
  try-body also: the response that is not \<open>ok\<close> has a JSON body with a truthy \<open>message\<close>
  whose string conversion is empty (such as an empty array). For \<open>getPosts\<close> also:
  reading the text of the response that is not \<open>ok\<close> rejects with an \<open>Error\<close> whose
  message is empty.
\<close>

definition emptyMessageFailure :: "'n engine \<Rightarrow> try_body \<Rightarrow> 'n fetch_outcome \<Rightarrow> bool" where
  "emptyMessageFailure eng tb outcome =
     (case outcome of
        Rejects e \<Rightarrow> e = ErrorObj []
      | Resolves r \<Rightarrow>
          \<not> resp_ok r \<and>
          (case tb of
             DetailedBody \<Rightarrow>
               (case resp_body r of
                  JsonBody j \<Rightarrow>
                    (case optProp j ''message'' of
                       None \<Rightarrow> False
                     | Some v \<Rightarrow> truthy eng v \<and> toString eng v = [])
                | NotJson e \<Rightarrow> False
                | Unreadable e \<Rightarrow> False)
           | PostsBody \<Rightarrow> resp_body r = Unreadable (ErrorObj [])
           | PlainBody \<Rightarrow> False
           | DashboardBody \<Rightarrow> False))"

text \<open>A returned object reports an error with message \<open>m\<close>.\<close>

definition errorReport :: "'n json \<Rightarrow> string \<Rightarrow> bool" where
  "errorReport v m =
     (getProp v ''status'' = Inr (Some (JStr ''error'')) \<and> getProp v ''message'' = Inr (Some (JStr m)))"

text \<open>The value of a header of a request, if the request sets it.\<close>

definition header :: "'n request \<Rightarrow> string \<Rightarrow> string option" where
  "header rq k = map_of (req_headers rq) k"

text \<open>The body of a request is the JSON text of an object.\<close>

fun jsonObjectBody :: "'n req_body option \<Rightarrow> bool" where
  "jsonObjectBody (Some (JsonText (JObj kvs))) = True"
| "jsonObjectBody b = False"


text \<open>
  A run with try-body \<open>tb\<close> reports failure when it issues exactly one request and, if
  that fetch failed, resolves to an error report whose message is empty exactly for the
  failures listed above.
\<close>

definition failureReported :: "'n engine \<Rightarrow> try_body \<Rightarrow> 'n net \<Rightarrow> 'n api_run \<Rightarrow> bool" where
  "failureReported eng tb net run =
     (\<exists>rq. fetched run = [rq] \<and>
        (failedFetch (net rq) \<longrightarrow>
           (\<exists>v m. returned run = Inr v \<and> errorReport v m
                  \<and> (m = [] \<longleftrightarrow> emptyMessageFailure eng tb (net rq)))))"

fun isUpload :: "'n api_call \<Rightarrow> bool" where
  "isUpload (Call_Deepfake_predictVideo f) = True"
| "isUpload c = False"

text \<open>
  Example surroundings: numbers as naturals, a network that is down (as Chrome words the
  rejection), one whose rejection carries no message, a backend answering 500 with a
  JSON body whose \<open>message\<close> is an empty array, and one answering 502 with a body whose
  reading rejects without a message.
\<close>

definition natEngine :: "nat engine" where
  "natEngine = \<lparr>numTruthy = (\<lambda>n. n \<noteq> 0), numToString = showNat\<rparr>"

definition downNet :: "nat net" where
  "downNet rq = Rejects (ErrorObj ''Failed to fetch'')"

definition silentNet :: "nat net" where
  "silentNet rq = Rejects (ErrorObj [])"

definition oddNet :: "nat net" where
  "oddNet rq = Resolves \<lparr>resp_ok = False, resp_status = 500,
                          resp_body = JsonBody (JObj [(''message'', JArr [])])\<rparr>"

definition unreadableNet :: "nat net" where
  "unreadableNet rq = Resolves \<lparr>resp_ok = False, resp_status = 502,
                                 resp_body = Unreadable (ErrorObj [])\<rparr>"

definition userReportsRequest :: "string \<Rightarrow> nat request" where
  "userReportsRequest userId =
     \<lparr>req_url = ''http://localhost:5000/api/reports/'' @ userId,
      req_method = Some ''GET'',
      req_headers = [(''Content-Type'', ''application/json'')],
      req_body = None\<rparr>"

definition postsRequest :: "nat request" where
  "postsRequest =
     \<lparr>req_url = ''http://localhost:5000/api/forum/posts'',
      req_method = Some ''GET'',
      req_headers = [(''Content-Type'', ''application/json'')],
      req_body = None\<rparr>"

definition exampleVideo :: upload_file where
  "exampleVideo = \<lparr>f_name = ''clip.mp4'', f_type = ''video/mp4'', f_size = 1048576\<rparr>"

definition deleteReportRequest :: "string \<Rightarrow> string \<Rightarrow> nat request" where
  "deleteReportRequest reportId adminId =
     \<lparr>req_url = ''http://localhost:5000/api/admin/reports/'' @ reportId,
      req_method = Some ''DELETE'',
      req_headers = [(''Content-Type'', ''application/json'')],
      req_body = Some (JsonText (JObj [(''admin_id'', JStr adminId)]))\<rparr>"

definition predictRequest :: "upload_file \<Rightarrow> nat request" where
  "predictRequest file =
     \<lparr>req_url = ''http://localhost:5000/api/predict'',
      req_method = Some ''POST'',
      req_headers = [],
      req_body = Some (FormData [(''file'', file)])\<rparr>"
section \<open>Session handling (AuthProvider)\<close>

text \<open>
  What the provider reads and writes: its \<open>user\<close> state (\<open>None\<close> is \<open>null\<close>; the stored
  value is whatever JSON the server or the stored session supplied), its \<open>isLoading\<close>
  flag, the browser's \<open>localStorage\<close> (\<open>None\<close>: the key is absent) and the toasts shown,
  most recent first.
\<close>

datatype 'n auth_toast = ToastSuccess string | ToastError "'n json"

record 'n auth_world =
  currentUser :: "'n json option"
  isLoading :: bool
  localStorage :: "string \<Rightarrow> string option"
  authToasts :: "'n auth_toast list"

text \<open>
  \<open>JSON.parse\<close> and \<open>JSON.stringify\<close> are parameters: \<open>parse\<close> yields \<open>None\<close> where
  \<open>JSON.parse\<close> throws a \<open>SyntaxError\<close>.
\<close>

type_synonym 'n json_parse = "string \<Rightarrow> 'n json option"
type_synonym 'n json_stringify = "'n json \<Rightarrow> string"

definition clearSession :: "'n auth_world \<Rightarrow> 'n auth_world" where
  "clearSession w = w\<lparr>localStorage := (localStorage w)(''authSession'' := None), currentUser := None\<rparr>"

definition verifyRequest :: "'n engine \<Rightarrow> 'n json \<Rightarrow> 'n request" where
  "verifyRequest eng token =
     \<lparr>req_url = API_BASE_URL @ ''/auth/verify'',
      req_method = Some ''POST'',
      req_headers = [(''Content-Type'', ''application/json''),
                     (''Authorization'', ''Bearer '' @ toString eng token)],
      req_body = Some (JsonText (JObj [(''token'', token)]))\<rparr>"

text \<open>
  The inner try of \<open>checkAuth\<close>: the verification of the stored token. A rejected fetch,
  an unreadable body or a \<open>null\<close> body lands in the inner catch, which keeps the stored
  user.
\<close>

definition verifySession :: "'n engine \<Rightarrow> 'n net \<Rightarrow> 'n json \<Rightarrow> 'n auth_world \<Rightarrow> 'n auth_world" where
  "verifySession eng net session w =
     (case net (verifyRequest eng (the (optProp session ''token''))) of
        Rejects e \<Rightarrow> w\<lparr>currentUser := optProp session ''user''\<rparr>
      | Resolves response \<Rightarrow>
          if resp_ok response then
            (case responseJson response of
               Inl e \<Rightarrow> w\<lparr>currentUser := optProp session ''user''\<rparr>
             | Inr data \<Rightarrow>
                 (case getProp data ''status'' of
                    Inl e \<Rightarrow> w\<lparr>currentUser := optProp session ''user''\<rparr>
                  | Inr status \<Rightarrow>
                      if status = Some (JStr ''success'') then w\<lparr>currentUser := optProp session ''user''\<rparr>
                      else clearSession w))
          else clearSession w)"

definition checkAuth ::
  "'n engine \<Rightarrow> 'n json_parse \<Rightarrow> 'n net \<Rightarrow> 'n auth_world \<Rightarrow> 'n auth_world" where
  "checkAuth eng parse net w =
     (case localStorage w ''authSession'' of
        None \<Rightarrow> w\<lparr>isLoading := False\<rparr>
      | Some sessionRaw \<Rightarrow>
          if sessionRaw = [] then w\<lparr>isLoading := False\<rparr>
          else
            (case parse sessionRaw of
               None \<Rightarrow> (clearSession w)\<lparr>isLoading := False\<rparr>
             | Some session \<Rightarrow>
                 if truthyOpt eng (optProp session ''loggedIn'')
                    \<and> truthyOpt eng (optProp session ''user'')
                    \<and> truthyOpt eng (optProp session ''token'')
                 then (verifySession eng net session w)\<lparr>isLoading := False\<rparr>
                 else (clearSession w)\<lparr>isLoading := False\<rparr>))"

definition loginRequest :: "string \<Rightarrow> string \<Rightarrow> 'n request" where
  "loginRequest email password =
     \<lparr>req_url = API_BASE_URL @ ''/auth/login'',
      req_method = Some ''POST'',
      req_headers = [(''Content-Type'', ''application/json'')],
      req_body = Some (JsonText (JObj [(''email'', JStr email), (''password'', JStr password)]))\<rparr>"

definition sessionObject :: "'n json \<Rightarrow> 'n json \<Rightarrow> 'n \<Rightarrow> 'n json" where
  "sessionObject u t now =
     JObj [(''loggedIn'', JBool True), (''user'', u), (''token'', t), (''createdAt'', JNum now)]"

text \<open>The catch block of \<open>login\<close>.\<close>

definition loginFailed :: "'n auth_world \<Rightarrow> 'n auth_world \<times> bool" where
  "loginFailed w =
     (w\<lparr>authToasts := ToastError (JStr ''Failed to connect to server. Please try again.'')
                        # authToasts w\<rparr>, False)"

text \<open>
  \<open>login\<close>; \<open>now\<close> is the value of \<open>Date.now()\<close>. The success toast ends in an
  ellipsis character, written here as its three UTF-8 bytes.
\<close>

definition login ::
  "'n engine \<Rightarrow> 'n json_stringify \<Rightarrow> 'n \<Rightarrow> 'n net \<Rightarrow> string \<Rightarrow> string \<Rightarrow> 'n auth_world
   \<Rightarrow> 'n auth_world \<times> bool" where
  "login eng stringify now net email password w =
     (case net (loginRequest email password) of
        Rejects e \<Rightarrow> loginFailed w
      | Resolves response \<Rightarrow>
          (case responseJson response of
             Inl e \<Rightarrow> loginFailed w
           | Inr data \<Rightarrow>
               (case getProp data ''status'' of
                  Inl e \<Rightarrow> loginFailed w
                | Inr status \<Rightarrow>
                    if status = Some (JStr ''success'')
                       \<and> truthyOpt eng (optProp data ''user'')
                       \<and> truthyOpt eng (optProp data ''token'')
                    then
                      (let session = sessionObject (the (optProp data ''user''))
                                       (the (optProp data ''token'')) now
                       in (w\<lparr>localStorage := (localStorage w)(''authSession'' \<mapsto> stringify session),
                             currentUser := optProp data ''user'',
                             authToasts :=
                               ToastSuccess (''Login successful! Redirecting''
                                             @ [CHR 0xE2, CHR 0x80, CHR 0xA6])
                               # authToasts w\<rparr>, True))
                    else
                      (w\<lparr>authToasts :=
                            ToastError (if truthyOpt eng (optProp data ''message'')
                                        then the (optProp data ''message'')
                                        else JStr ''Invalid email or password.'')
                            # authToasts w\<rparr>, False))))"

definition logout :: "'n auth_world \<Rightarrow> 'n auth_world" where
  "logout w =
     w\<lparr>localStorage := (localStorage w)(''authSession'' := None),
       currentUser := None,
       authToasts := ToastSuccess ''Logged out successfully'' # authToasts w\<rparr>"

text \<open>
  A stored session passes the test of \<open>checkAuth\<close> when it parses and its \<open>loggedIn\<close>,
  \<open>user\<close> and \<open>token\<close> are all truthy.
\<close>

definition validSession :: "'n engine \<Rightarrow> 'n json_parse \<Rightarrow> string \<Rightarrow> bool" where
  "validSession eng parse sessionRaw =
     (case parse sessionRaw of
        None \<Rightarrow> False
      | Some session \<Rightarrow>
          truthyOpt eng (optProp session ''loggedIn'')
          \<and> truthyOpt eng (optProp session ''user'')
          \<and> truthyOpt eng (optProp session ''token''))"

section \<open>Notifications in the header (AppHeader)\<close>

text \<open>Interface \<open>Notification\<close> of the dashboard service.\<close>

datatype notification_type = Alert | Update | Warning | Info

record notification =
  n_id :: string
  n_title :: string
  n_message :: string
  n_type :: notification_type
  n_timestamp :: string
  is_read :: bool

text \<open>
  The header's view of the auth context and its own two pieces of state. \<open>unreadCount\<close>
  is a JavaScript number; it only ever holds a list length or \<open>Math.max(0, prev - 1)\<close>.
\<close>

record app_header =
  hdr_user :: "auth_user option"
  hdr_isAuthenticated :: bool
  notifications :: "notification list"
  unreadCount :: int

text \<open>
  \<open>handleMarkAsRead\<close>: returns at once without a user id; otherwise awaits
  \<open>DashboardApiService.markNotificationRead\<close> and, unless that throws, updates both
  pieces of state.
\<close>

definition handleMarkAsRead ::
  "'n engine \<Rightarrow> 'n net \<Rightarrow> string \<Rightarrow> app_header \<Rightarrow> app_header" where
  "handleMarkAsRead eng net notificationId st =
     (case hdr_user st of
        None \<Rightarrow> st
      | Some user \<Rightarrow>
          if auth_id user = [] then st
          else
            (case returned (DashboardApiService_markNotificationRead eng notificationId
                              (auth_id user) net) of
               Inl e \<Rightarrow> st
             | Inr response \<Rightarrow>
                 st\<lparr>notifications :=
                       map (\<lambda>n. if n_id n = notificationId then n\<lparr>is_read := True\<rparr> else n)
                         (notifications st),
                     unreadCount := max 0 (unreadCount st - 1)\<rparr>))"

section \<open>Polling timers (AppHeader, Dashboard, Forum)\<close>

text \<open>
  The browser's interval timers: \<open>setInterval\<close> registers a callback with a delay in
  milliseconds and returns a fresh id, \<open>clearInterval\<close> removes the timer with that id.
  The callbacks in question are the three refetch functions.
\<close>

datatype poll = FetchNotifications | FetchDashboardData | FetchPosts

record interval_timer =
  timer_id :: nat
  timer_delay :: nat
  timer_callback :: poll

record timers =
  active :: "interval_timer list"
  nextId :: nat

definition setInterval :: "poll \<Rightarrow> nat \<Rightarrow> timers \<Rightarrow> nat \<times> timers" where
  "setInterval callback delay ts =
     (nextId ts,
      \<lparr>active = active ts @ [\<lparr>timer_id = nextId ts, timer_delay = delay, timer_callback = callback\<rparr>],
       nextId = Suc (nextId ts)\<rparr>)"

definition clearInterval :: "nat \<Rightarrow> timers \<Rightarrow> timers" where
  "clearInterval i ts = ts\<lparr>active := filter (\<lambda>t. timer_id t \<noteq> i) (active ts)\<rparr>"

text \<open>
  What running an effect does: the refetches it calls at once, the timers afterwards, and
  the cleanup it returns, if any; each cleanup here is \<open>() => clearInterval(interval)\<close>
  and is kept as the interval's id.
\<close>

record effect_run =
  called :: "poll list"
  timersAfter :: timers
  cleanup :: "nat option"

definition noEffect :: "timers \<Rightarrow> effect_run" where
  "noEffect ts = \<lparr>called = [], timersAfter = ts, cleanup = None\<rparr>"

definition pollEvery :: "poll \<Rightarrow> nat \<Rightarrow> timers \<Rightarrow> effect_run" where
  "pollEvery callback delay ts =
     (let (interval, ts') = setInterval callback delay ts
      in \<lparr>called = [callback], timersAfter = ts', cleanup = Some interval\<rparr>)"

definition runCleanup :: "effect_run \<Rightarrow> timers" where
  "runCleanup r =
     (case cleanup r of None \<Rightarrow> timersAfter r | Some interval \<Rightarrow> clearInterval interval (timersAfter r))"

text \<open>The polling effect of the header: only with a user id and an authenticated session.\<close>

definition AppHeader_effect :: "auth_user option \<Rightarrow> bool \<Rightarrow> timers \<Rightarrow> effect_run" where
  "AppHeader_effect user isAuthenticated ts =
     (case user of
        None \<Rightarrow> noEffect ts
      | Some u \<Rightarrow>
          if auth_id u \<noteq> [] \<and> isAuthenticated then pollEvery FetchNotifications 30000 ts
          else noEffect ts)"

text \<open>The polling effect of the Dashboard page: only with a user id.\<close>

definition Dashboard_effect :: "auth_user option \<Rightarrow> timers \<Rightarrow> effect_run" where
  "Dashboard_effect user ts =
     (case user of
        None \<Rightarrow> noEffect ts
      | Some u \<Rightarrow> if auth_id u \<noteq> [] then pollEvery FetchDashboardData 30000 ts else noEffect ts)"

text \<open>The polling effect of the Forum page: unconditional.\<close>

definition Forum_effect :: "timers \<Rightarrow> effect_run" where
  "Forum_effect ts = pollEvery FetchPosts 10000 ts"

text \<open>Timer ids are fresh as long as every active timer's id is below \<open>nextId\<close>.\<close>

definition timersOk :: "timers \<Rightarrow> bool" where
  "timersOk ts = list_all (\<lambda>t. timer_id t < nextId ts) (active ts)"

text \<open>
  An effect run polls with callback \<open>p\<close> every \<open>d\<close> ms: it calls \<open>p\<close> once at once,
  registers exactly one new interval timer, with that callback and delay, returns the
  cleanup for that timer, and running the cleanup leaves the timers that were active
  before.
\<close>

definition pollsWith :: "poll \<Rightarrow> nat \<Rightarrow> timers \<Rightarrow> effect_run \<Rightarrow> bool" where
  "pollsWith p d ts r =
     (called r = [p]
      \<and> (\<exists>t. active (timersAfter r) = active ts @ [t]
             \<and> timer_callback t = p \<and> timer_delay t = d \<and> cleanup r = Some (timer_id t))
      \<and> active (runCleanup r) = active ts)"

section \<open>Report export (AdminContent.exportToCSV, AdminContent.exportToPDF)\<close>

text \<open>
  Interface \<open>Report\<close> of the admin service. Its strings are kept as code units, since the
  PDF export cuts them with \<open>substring\<close>; its two numbers are kept abstract.
\<close>

record 'n report =
  r_id :: utf16
  r_user_id :: utf16
  r_user_email :: utf16
  r_user_name :: utf16
  r_file_name :: utf16
  r_prediction :: utf16
  r_confidence :: 'n
  r_frames_analyzed :: 'n
  r_report_url :: utf16
  r_model_version :: utf16
  r_created_at :: utf16

text \<open>
  The statistics object that \<open>calculateStatistics\<close> leaves in the state: three counts and
  two fractional numbers.
\<close>

record 'n statistics =
  total_reports :: nat
  fake_reports :: nat
  real_reports :: nat
  fake_percentage :: 'n
  avg_confidence :: 'n
  most_recent :: string

text \<open>
  Number formatting is floating-point work and is taken as parameters:
  \<open>percent2 c\<close> is \<open>(c * 100).toFixed(2)\<close>, \<open>percent0 c\<close> is \<open>(c * 100).toFixed(0)\<close>,
  \<open>fixed1 x\<close> is \<open>x.toFixed(1)\<close> and \<open>plain x\<close> is the default string conversion.
  So are the two renderings of the current time: \<open>isoDate\<close> is
  \<open>new Date().toISOString().split('T')[0]\<close> and \<open>localeNow\<close> is
  \<open>new Date().toLocaleString()\<close>.
\<close>

record 'n formats =
  percent2 :: "'n \<Rightarrow> utf16"
  percent0 :: "'n \<Rightarrow> utf16"
  fixed1 :: "'n \<Rightarrow> utf16"
  plain :: "'n \<Rightarrow> utf16"
  isoDate :: string
  localeNow :: utf16

subsection \<open>The PDF document\<close>

text \<open>
  A jsPDF document as far as the export uses it: the finished pages and the current one,
  each a list of text draws, and the current font size and weight. A text draw records its
  string, position, alignment and the font in force.
\<close>

record pdf_text =
  pt_text :: utf16
  pt_x :: real
  pt_y :: real
  pt_centered :: bool
  pt_size :: nat
  pt_bold :: bool

record pdf_doc =
  donePages :: "pdf_text list list"
  thisPage :: "pdf_text list"
  fontSize :: nat
  bold :: bool

definition newPdf :: pdf_doc where
  "newPdf = \<lparr>donePages = [], thisPage = [], fontSize = 16, bold = False\<rparr>"

definition setFontSize :: "nat \<Rightarrow> pdf_doc \<Rightarrow> pdf_doc" where
  "setFontSize n d = d\<lparr>fontSize := n\<rparr>"

definition setBold :: "bool \<Rightarrow> pdf_doc \<Rightarrow> pdf_doc" where
  "setBold b d = d\<lparr>bold := b\<rparr>"

definition drawText :: "utf16 \<Rightarrow> real \<Rightarrow> real \<Rightarrow> bool \<Rightarrow> pdf_doc \<Rightarrow> pdf_doc" where
  "drawText s x y centered d =
     d\<lparr>thisPage := thisPage d @ [\<lparr>pt_text = s, pt_x = x, pt_y = y, pt_centered = centered,
                                    pt_size = fontSize d, pt_bold = bold d\<rparr>]\<rparr>"

definition addPage :: "pdf_doc \<Rightarrow> pdf_doc" where
  "addPage d = d\<lparr>donePages := donePages d @ [thisPage d], thisPage := []\<rparr>"

definition pages :: "pdf_doc \<Rightarrow> pdf_text list list" where
  "pages d = donePages d @ [thisPage d]"

text \<open>All strings drawn anywhere in the document.\<close>

definition drawnTexts :: "pdf_doc \<Rightarrow> utf16 set" where
  "drawnTexts d = pt_text ` set (concat (pages d))"

subsection \<open>The two exports\<close>

text \<open>
  A file handed to the browser for saving: a CSV file with its name, MIME type and content,
  or a PDF file with its name and document.
\<close>

datatype saved_file =
  CsvFile string string utf16
  | PdfFile string pdf_doc

record 'n admin_export =
  filteredReports :: "'n report list"
  stats :: "'n statistics option"
  isExporting :: bool
  exportToasts :: "toast list"
  sonnerToasts :: "string list"
  savedFiles :: "saved_file list"

definition noData :: "'n admin_export \<Rightarrow> 'n admin_export" where
  "noData st =
     st\<lparr>exportToasts := \<lparr>toast_title = ''No Data'', toast_description = ''No reports to export'',
                            toast_variant = ''destructive''\<rparr> # exportToasts st\<rparr>"

text \<open>The check mark of the two success toasts, as its three UTF-8 bytes.\<close>

definition checkMark :: string where
  "checkMark = [CHR 0xE2, CHR 0x9C, CHR 0x85]"

definition csvHeaders :: "utf16 list" where
  "csvHeaders =
     map units [''Report ID'', ''User Email'', ''File Name'', ''Confidence %'', ''Result'', ''Date'']"

definition csvRow :: "'n formats \<Rightarrow> 'n report \<Rightarrow> utf16 list" where
  "csvRow fmt r =
     [r_id r, r_user_email r, r_file_name r, percent2 fmt (r_confidence r), r_prediction r,
      r_created_at r]"

text \<open>The template literal that puts a cell between double quotes (\<open>0x22\<close>).\<close>

definition quoteCell :: "utf16 \<Rightarrow> utf16" where
  "quoteCell cell = [0x22] @ cell @ [0x22]"

text \<open>The content: lines joined by a line feed (\<open>0x0A\<close>), cells by a comma (\<open>0x2C\<close>).\<close>

definition csvContent :: "'n formats \<Rightarrow> 'n report list \<Rightarrow> utf16" where
  "csvContent fmt reports =
     joinWith [0x0A]
       (joinWith [0x2C] csvHeaders
        # map (\<lambda>row. joinWith [0x2C] (map quoteCell row)) (map (csvRow fmt) reports))"

text \<open>
  \<open>exportToCSV\<close>: the early return on an empty list, otherwise the try block (the file
  handed to the browser for download, then the two success toasts) and the \<open>finally\<close>
  that resets \<open>isExporting\<close>.
\<close>

definition exportToCSV :: "'n formats \<Rightarrow> 'n admin_export \<Rightarrow> 'n admin_export" where
  "exportToCSV fmt st =
     (if length (filteredReports st) = 0 then noData st
      else
        st\<lparr>savedFiles :=
             CsvFile (''reports_export_'' @ isoDate fmt @ ''.csv'') ''text/csv;charset=utf-8;''
               (csvContent fmt (filteredReports st))
             # savedFiles st,
           sonnerToasts := (checkMark @ '' CSV exported successfully'') # sonnerToasts st,
           exportToasts := \<lparr>toast_title = ''Success'', toast_description = ''Reports exported to CSV'',
                            toast_variant = ''default''\<rparr> # exportToasts st,
           isExporting := False\<rparr>)"

text \<open>\<open>String.prototype.split('\n')\<close>: the pieces between line feeds.\<close>

fun splitLines :: "utf16 \<Rightarrow> utf16 list" where
  "splitLines [] = [[]]"
| "splitLines (c # cs) =
     (if c = 0x0A then [] # splitLines cs
      else (case splitLines cs of [] \<Rightarrow> [[c]] | l # ls \<Rightarrow> (c # l) # ls))"

text \<open>
  A record of the CSV as the claim describes it: the six cells of a report, each between
  double quotes, separated by commas.
\<close>

definition quotedRecord :: "'n formats \<Rightarrow> 'n report \<Rightarrow> utf16" where
  "quotedRecord fmt r =
     [0x22] @ r_id r @ [0x22, 0x2C]
     @ [0x22] @ r_user_email r @ [0x22, 0x2C]
     @ [0x22] @ r_file_name r @ [0x22, 0x2C]
     @ [0x22] @ percent2 fmt (r_confidence r) @ [0x22, 0x2C]
     @ [0x22] @ r_prediction r @ [0x22, 0x2C]
     @ [0x22] @ r_created_at r @ [0x22]"

definition margin :: real where
  "margin = 20"

definition colWidths :: "real list" where
  "colWidths = [30, 40, 50, 25, 20, 25]"

definition pdfHeaders :: "utf16 list" where
  "pdfHeaders = map units [''ID'', ''User Email'', ''File Name'', ''Conf%'', ''Result'', ''Date'']"

text \<open>
  \<open>cells.forEach((cell, i) => { doc.text(cell, xPos, yPos); xPos += colWidths[i] })\<close>,
  starting from \<open>xPos = margin\<close>; the rows and the headers have six cells, as many as
  there are column widths.
\<close>

fun drawCells :: "utf16 list \<Rightarrow> real list \<Rightarrow> real \<Rightarrow> real \<Rightarrow> pdf_doc \<Rightarrow> pdf_doc" where
  "drawCells (cell # cells) (w # ws) xPos yPos d =
     drawCells cells ws (xPos + w) yPos (drawText cell xPos yPos False d)"
| "drawCells cells ws xPos yPos d = d"

text \<open>
  The cells of a table row: \<open>substring(0, n)\<close> keeps the first \<open>n\<close> code units, and
  \<open>split(' ')[0]\<close> keeps what comes before the first space (\<open>0x20\<close>).
\<close>

definition pdfRow :: "'n formats \<Rightarrow> 'n report \<Rightarrow> utf16 list" where
  "pdfRow fmt report =
     [take 8 (r_id report), take 20 (r_user_email report), take 25 (r_file_name report),
      percent0 fmt (r_confidence report), r_prediction report,
      takeWhile (\<lambda>c. c \<noteq> 0x20) (r_created_at report)]"

text \<open>One pass of the row loop, on the document and \<open>yPos\<close>.\<close>

definition drawRow :: "'n formats \<Rightarrow> real \<Rightarrow> pdf_doc \<times> real \<Rightarrow> 'n report \<Rightarrow> pdf_doc \<times> real" where
  "drawRow fmt pageHeight s report =
     (let (d, yPos) = s;
          (d1, y1) =
            (if yPos > pageHeight - 30 then
               (setBold False
                  (drawCells pdfHeaders colWidths margin margin (setBold True (addPage d))),
                margin + 8)
             else (d, yPos))
      in (drawCells (pdfRow fmt report) colWidths margin y1 d1, y1 + 6))"

definition drawStatistics :: "'n formats \<Rightarrow> 'n statistics option \<Rightarrow> pdf_doc \<times> real \<Rightarrow> pdf_doc \<times> real" where
  "drawStatistics fmt statistics s =
     (case statistics of
        None \<Rightarrow> s
      | Some x \<Rightarrow>
          (let (d, yPos) = s;
               d1 = drawText (units (''Total Reports: '' @ showNat (total_reports x)))
                      margin yPos False d;
               d2 = drawText (units (''Fake Reports: '' @ showNat (fake_reports x) @ '' ('')
                              @ fixed1 fmt (fake_percentage x) @ units ''%)'')
                      margin (yPos + 6) False d1;
               d3 = drawText (units (''Real Reports: '' @ showNat (real_reports x)))
                      margin (yPos + 12) False d2;
               d4 = drawText (units ''Average Confidence: '' @ plain fmt (avg_confidence x)
                              @ units ''%'')
                      margin (yPos + 18) False d3
           in (d4, yPos + 28)))"

text \<open>Everything up to and including the table header row.\<close>

definition pdfPreamble :: "'n formats \<Rightarrow> real \<Rightarrow> 'n statistics option \<Rightarrow> pdf_doc \<times> real" where
  "pdfPreamble fmt pageWidth statistics =
     (let d1 = drawText (units ''Deepfake Detection Reports'') (pageWidth / 2) margin True
                 (setFontSize 20 newPdf);
          d2 = drawText (units ''Export Date: '' @ localeNow fmt) (pageWidth / 2) (margin + 10)
                 True (setFontSize 10 d1);
          d3 = drawText (units ''Summary Statistics'') margin (margin + 20) False
                 (setFontSize 14 d2);
          (d4, yPos) = drawStatistics fmt statistics (setFontSize 10 d3, margin + 28);
          d5 = drawCells pdfHeaders colWidths margin yPos (setBold True (setFontSize 10 d4))
      in (setBold False d5, yPos + 8))"

definition noteText :: "nat \<Rightarrow> utf16" where
  "noteText n = units (''Note: Showing first 25 of '' @ showNat n @ '' reports'')"

definition withNote :: "nat \<Rightarrow> pdf_doc \<Rightarrow> pdf_doc" where
  "withNote n d = drawText (noteText n) margin margin False (setFontSize 12 (addPage d))"

text \<open>The document that \<open>exportToPDF\<close> builds from the filtered reports.\<close>

definition pdfDocument ::
  "'n formats \<Rightarrow> real \<Rightarrow> real \<Rightarrow> 'n statistics option \<Rightarrow> 'n report list \<Rightarrow> pdf_doc" where
  "pdfDocument fmt pageWidth pageHeight statistics reports =
     (let reportsToShow = take 25 reports;
          (d, yPos) = foldl (drawRow fmt pageHeight) (pdfPreamble fmt pageWidth statistics)
                        reportsToShow
      in if length reports > 25 then withNote (length reports) d else d)"

text \<open>
  \<open>exportToPDF\<close>, with the page size of the new document as parameters
  (\<open>doc.internal.pageSize\<close>).
\<close>

definition exportToPDF :: "'n formats \<Rightarrow> real \<Rightarrow> real \<Rightarrow> 'n admin_export \<Rightarrow> 'n admin_export" where
  "exportToPDF fmt pageWidth pageHeight st =
     (if length (filteredReports st) = 0 then noData st
      else
        st\<lparr>savedFiles :=
             PdfFile (''reports_export_'' @ isoDate fmt @ ''.pdf'')
               (pdfDocument fmt pageWidth pageHeight (stats st) (filteredReports st))
             # savedFiles st,
           sonnerToasts := (checkMark @ '' PDF exported successfully'') # sonnerToasts st,
           exportToasts := \<lparr>toast_title = ''Success'', toast_description = ''Reports exported to PDF'',
                            toast_variant = ''default''\<rparr> # exportToasts st,
           isExporting := False\<rparr>)"

section \<open>Deleting a report (AdminContent.fetchReports, AdminContent.handleDeleteReport)\<close>

text \<open>
  The part of the admin page's state that the two functions touch. \<open>reports\<close> holds
  what the last successful listing response carried in its \<open>reports\<close> property, and
  \<open>selectedReport\<close> a row taken from it; both are JSON values as the server sent them.
\<close>

record 'n admin_page =
  ap_user :: "auth_user option"
  reports :: "'n json"
  selectedReport :: "'n json option"
  resultFilter :: string
  dateFrom :: string
  dateTo :: string
  ap_isLoading :: bool
  isDeleting :: bool
  showDeleteDialog :: bool
  ap_toasts :: "toast list"
  ap_sonner :: "(string \<times> string option) list"

text \<open>
  A backend with state \<open>'db\<close> answers a request and moves to its next state. \<open>serve\<close>
  runs a service method against it: the method's fetches are answered from the current
  state, and the state advances by each request sent.
\<close>

type_synonym ('n, 'db) backend = "'db \<Rightarrow> 'n request \<Rightarrow> 'n fetch_outcome \<times> 'db"

definition serve :: "('n, 'db) backend \<Rightarrow> ('n net \<Rightarrow> 'n api_run) \<Rightarrow> 'db \<Rightarrow> 'n api_run \<times> 'db" where
  "serve backend method db =
     (let run = method (\<lambda>rq. fst (backend db rq))
      in (run, foldl (\<lambda>d rq. snd (backend d rq)) db (fetched run)))"

definition errorToast :: "string \<Rightarrow> toast" where
  "errorToast msg = \<lparr>toast_title = ''Error'', toast_description = msg, toast_variant = ''destructive''\<rparr>"

text \<open>The filters object that \<open>fetchReports\<close> assembles from the page's filter fields.\<close>

definition pageFilters :: "'n admin_page \<Rightarrow> report_filters" where
  "pageFilters st =
     \<lparr>flt_result = (if resultFilter st \<noteq> ''all'' then Some (resultFilter st) else None),
      flt_user_id = None,
      flt_date_from = (if dateFrom st \<noteq> [] then Some (dateFrom st) else None),
      flt_date_to = (if dateTo st \<noteq> [] then Some (dateTo st) else None)\<rparr>"

text \<open>
  The text that a template literal makes of a string-typed property: \<open>undefined\<close> when the
  property is missing.
\<close>

definition propText :: "'n engine \<Rightarrow> 'n json \<Rightarrow> string \<Rightarrow> string" where
  "propText eng v k = (case optProp v k of None \<Rightarrow> ''undefined'' | Some x \<Rightarrow> toString eng x)"

text \<open>
  \<open>fetchReports\<close>. The error toast shows \<open>response.message\<close> when that is truthy
  (rendered as text here).
\<close>

definition fetchReports ::
  "'n engine \<Rightarrow> ('n, 'db) backend \<Rightarrow> 'n admin_page \<times> 'db \<Rightarrow> 'n admin_page \<times> 'db" where
  "fetchReports eng backend s =
     (let (st, db) = s
      in case ap_user st of
           None \<Rightarrow> (st, db)
         | Some user \<Rightarrow>
             if auth_id user = [] then (st, db)
             else
               (let (run, db') =
                      serve backend
                        (AdminApiService_getAllReports eng (auth_id user) (Some (pageFilters st))) db
                in case returned run of
                     Inl e \<Rightarrow>
                       (st\<lparr>ap_toasts := errorToast ''Failed to fetch reports'' # ap_toasts st,
                           ap_isLoading := False\<rparr>, db')
                   | Inr response \<Rightarrow>
                       (case getProp response ''status'' of
                          Inl e \<Rightarrow>
                            (st\<lparr>ap_toasts := errorToast ''Failed to fetch reports'' # ap_toasts st,
                                ap_isLoading := False\<rparr>, db')
                        | Inr status \<Rightarrow>
                            if status = Some (JStr ''success'')
                               \<and> truthyOpt eng (optProp response ''reports'')
                            then (st\<lparr>reports := the (optProp response ''reports''),
                                      ap_isLoading := False\<rparr>, db')
                            else
                              (st\<lparr>ap_toasts :=
                                    errorToast (if truthyOpt eng (optProp response ''message'')
                                                then toString eng (the (optProp response ''message''))
                                                else ''Failed to fetch reports'')
                                    # ap_toasts st,
                                  ap_isLoading := False\<rparr>, db'))))"

text \<open>The cross mark of the failure toast, as its three UTF-8 bytes.\<close>

definition crossMark :: string where
  "crossMark = [CHR 0xE2, CHR 0x9D, CHR 0x8C]"

definition deleteFailed :: "thrown \<Rightarrow> 'n admin_page \<Rightarrow> 'n admin_page" where
  "deleteFailed e st =
     st\<lparr>ap_sonner := (crossMark @ '' Failed to delete report'',
                       Some (errorMessage ''An error occurred'' e)) # ap_sonner st,
        showDeleteDialog := False,
        isDeleting := False\<rparr>"

text \<open>
  \<open>handleDeleteReport\<close>. It calls \<open>fetchReports\<close> without awaiting it; the state
  given here is the one after that call has settled too.
\<close>

definition handleDeleteReport ::
  "'n engine \<Rightarrow> ('n, 'db) backend \<Rightarrow> 'n admin_page \<times> 'db \<Rightarrow> 'n admin_page \<times> 'db" where
  "handleDeleteReport eng backend s =
     (let (st, db) = s
      in case (ap_user st, selectedReport st) of
           (Some user, Some selected) \<Rightarrow>
             if auth_id user = [] \<or> \<not> truthy eng selected then (st, db)
             else
               (let (run, db') =
                      serve backend
                        (AdminApiService_deleteReport eng (propText eng selected ''id'')
                           (auth_id user)) db
                in case returned run of
                     Inl e \<Rightarrow> (deleteFailed e st, db')
                   | Inr response \<Rightarrow>
                       (case getProp response ''status'' of
                          Inl e \<Rightarrow> (deleteFailed e st, db')
                        | Inr status \<Rightarrow>
                            if status = Some (JStr ''success'') then
                              (let (st', db'') =
                                     fetchReports eng backend
                                       (st\<lparr>ap_sonner := (checkMark @ '' Report deleted successfully'',
                                                          None) # ap_sonner st,
                                           ap_toasts :=
                                             \<lparr>toast_title = ''Success'',
                                              toast_description = ''Report deleted successfully'',
                                              toast_variant = ''default''\<rparr> # ap_toasts st\<rparr>,
                                        db')
                               in (st'\<lparr>selectedReport := None, showDeleteDialog := False,
                                       isDeleting := False\<rparr>, db''))
                            else
                              (deleteFailed
                                 (ErrorObj (if truthyOpt eng (optProp response ''message'')
                                            then toString eng (the (optProp response ''message''))
                                            else ''Failed to delete report''))
                                 st, db')))
         | _ \<Rightarrow> (st, db))"

text \<open>
  Modelled from the spec: the backend's report endpoints, whose code (the Flask service)
  is not among the sources. The spec describes the backend as performing CRUD against a
  single relational database and states that a deleted report no longer appears in
  listings. The database is the list of report rows, each a JSON object with an \<open>id\<close>;
  a \<open>DELETE\<close> on \<open>/admin/reports/<id>\<close> removes the rows with that id and answers
  success; a \<open>GET\<close> on \<open>/admin/reports?...\<close> answers success with the rows that the
  query selects (which rows a query selects is the parameter \<open>selects\<close>); anything else
  is answered 404. The routes are those the client addresses.
\<close>

definition deletePrefix :: string where
  "deletePrefix = API_BASE_URL @ ''/admin/reports/''"

definition listPrefix :: string where
  "listPrefix = API_BASE_URL @ ''/admin/reports?''"

definition jsonResponse :: "bool \<Rightarrow> nat \<Rightarrow> 'n json \<Rightarrow> 'n fetch_outcome" where
  "jsonResponse isOk status v = Resolves \<lparr>resp_ok = isOk, resp_status = status, resp_body = JsonBody v\<rparr>"

definition reportsBackend ::
  "'n engine \<Rightarrow> (string \<Rightarrow> 'n json \<Rightarrow> bool) \<Rightarrow> ('n, 'n json list) backend" where
  "reportsBackend eng selects db rq =
     (if req_method rq = Some ''DELETE''
         \<and> take (length deletePrefix) (req_url rq) = deletePrefix
      then
        (jsonResponse True 200
           (JObj [(''status'', JStr ''success''), (''message'', JStr ''Report deleted successfully'')]),
         filter (\<lambda>row. propText eng row ''id'' \<noteq> drop (length deletePrefix) (req_url rq)) db)
      else if req_method rq = Some ''GET''
              \<and> take (length listPrefix) (req_url rq) = listPrefix
      then
        (jsonResponse True 200
           (JObj [(''status'', JStr ''success''),
                  (''reports'', JArr (filter (selects (req_url rq)) db))]),
         db)
      else
        (jsonResponse False 404 (JObj [(''status'', JStr ''error''), (''message'', JStr ''Not found'')]),
         db))"

section \<open>Example sessions\<close>

text \<open>
  JSON text of a value over natural numbers (strings escaped for the quote and the
  backslash only), used as the \<open>JSON.stringify\<close> of the examples.
\<close>

definition escapeChar :: "char \<Rightarrow> string" where
  "escapeChar c = (if c = CHR 0x22 \<or> c = CHR 0x5C then [CHR 0x5C, c] else [c])"

definition quoted :: "string \<Rightarrow> string" where
  "quoted s = [CHR 0x22] @ concat (map escapeChar s) @ [CHR 0x22]"

fun jsonText :: "nat json \<Rightarrow> string" where
  "jsonText JNull = ''null''"
| "jsonText (JBool b) = (if b then ''true'' else ''false'')"
| "jsonText (JNum n) = showNat n"
| "jsonText (JStr s) = quoted s"
| "jsonText (JArr xs) = ''['' @ joinWith '','' (map jsonText xs) @ '']''"
| "jsonText (JObj kvs) =
     ''{'' @ joinWith '','' (map (\<lambda>kv. quoted (fst kv) @ '':'' @ jsonText (snd kv)) kvs) @ ''}''"

definition annUser :: "nat json" where
  "annUser = JObj [(''id'', JStr ''u1''), (''email'', JStr ''ann@example.org''),
                   (''role'', JStr ''user'')]"

definition annSession :: "nat json" where
  "annSession = sessionObject annUser (JStr ''tok-1'') 1700000000000"

text \<open>
  A \<open>JSON.parse\<close> for the examples: it knows the text of Ann's session and the text
  \<open>null\<close>, and throws on everything else.
\<close>

definition exampleParse :: "nat json_parse" where
  "exampleParse s =
     (if s = jsonText annSession then Some annSession
      else if s = ''null'' then Some JNull
      else None)"

text \<open>A backend that accepts Ann's login.\<close>

definition loginData :: "nat json" where
  "loginData = JObj [(''status'', JStr ''success''), (''user'', annUser), (''token'', JStr ''tok-1'')]"

definition loginResponse :: "nat response" where
  "loginResponse = \<lparr>resp_ok = True, resp_status = 200, resp_body = JsonBody loginData\<rparr>"

definition loginNet :: "nat net" where
  "loginNet rq = Resolves loginResponse"

text \<open>A backend that confirms every token.\<close>

definition okNet :: "nat net" where
  "okNet rq = Resolves \<lparr>resp_ok = True, resp_status = 200,
                         resp_body = JsonBody (JObj [(''status'', JStr ''success'')])\<rparr>"

definition emptyStorage :: "string \<Rightarrow> string option" where
  "emptyStorage k = None"

text \<open>
  Worlds: nobody signed in and nothing stored; Ann signed in while the stored session is
  gone (removed by a logout in another tab); nobody signed in and the empty string stored
  under the key; Ann's session stored; text that is not JSON stored.
\<close>

definition freshWorld :: "nat auth_world" where
  "freshWorld = \<lparr>currentUser = None, isLoading = True, localStorage = emptyStorage, authToasts = []\<rparr>"

definition staleWorld :: "nat auth_world" where
  "staleWorld = \<lparr>currentUser = Some annUser, isLoading = False, localStorage = emptyStorage,
                  authToasts = []\<rparr>"

definition blankWorld :: "nat auth_world" where
  "blankWorld = \<lparr>currentUser = None, isLoading = True,
                  localStorage = emptyStorage(''authSession'' \<mapsto> []), authToasts = []\<rparr>"

definition storedWorld :: "nat auth_world" where
  "storedWorld = \<lparr>currentUser = None, isLoading = True,
                   localStorage = emptyStorage(''authSession'' \<mapsto> jsonText annSession),
                   authToasts = []\<rparr>"

definition garbageWorld :: "nat auth_world" where
  "garbageWorld = \<lparr>currentUser = Some annUser, isLoading = True,
                    localStorage = emptyStorage(''authSession'' \<mapsto> ''not json''), authToasts = []\<rparr>"

text \<open>
  A header with one unread notification: with Ann signed in, and with a user signed in
  whose id is the empty string (the user object is kept as the login response gave it)
  while the header still holds the notification fetched before.
\<close>

definition reportReady :: notification where
  "reportReady = \<lparr>n_id = ''n1'', n_title = ''Report ready'', n_message = ''Your report is ready'',
                   n_type = Info, n_timestamp = ''2024-01-01 10:00:00'', is_read = False\<rparr>"

definition ann :: auth_user where
  "ann = \<lparr>auth_id = ''u1'', auth_email = ''ann@example.org'', auth_role = ''user'', auth_name = None\<rparr>"

definition blankIdUser :: auth_user where
  "blankIdUser = \<lparr>auth_id = [], auth_email = ''eve@example.org'', auth_role = ''user'',
                   auth_name = None\<rparr>"

definition blankIdHeader :: app_header where
  "blankIdHeader = \<lparr>hdr_user = Some blankIdUser, hdr_isAuthenticated = True,
                     notifications = [reportReady], unreadCount = 1\<rparr>"

definition signedInHeader :: app_header where
  "signedInHeader = \<lparr>hdr_user = Some ann, hdr_isAuthenticated = True, notifications = [reportReady],
                      unreadCount = 1\<rparr>"

definition noTimers :: timers where
  "noTimers = \<lparr>active = [], nextId = 1\<rparr>"

text \<open>
  Example reports, with numbers as naturals: a confidence is given in whole per cent, so
  that the formatting parameters are plain decimal text. The second report has a line feed
  in its file name.
\<close>

definition natFormats :: "nat formats" where
  "natFormats = \<lparr>percent2 = (\<lambda>n. units (showNat n @ ''.00'')),
                  percent0 = (\<lambda>n. units (showNat n)),
                  fixed1 = (\<lambda>n. units (showNat n @ ''.0'')),
                  plain = (\<lambda>n. units (showNat n)),
                  isoDate = ''2024-05-01'', localeNow = units ''5/1/2024, 10:00:00 AM''\<rparr>"

definition clipReport :: "nat report" where
  "clipReport = \<lparr>r_id = units ''r1'', r_user_id = units ''u1'',
                  r_user_email = units ''ann@example.org'', r_user_name = units ''Ann'',
                  r_file_name = units ''clip.mp4'', r_prediction = units ''FAKE'',
                  r_confidence = 87, r_frames_analyzed = 30,
                  r_report_url = units ''/reports/r1.pdf'', r_model_version = units ''v1'',
                  r_created_at = units ''2024-04-30 09:15:00''\<rparr>"

definition brokenNameReport :: "nat report" where
  "brokenNameReport = clipReport\<lparr>r_file_name := units ''a'' @ [0x0A] @ units ''b''\<rparr>"

definition exportState :: "nat report list \<Rightarrow> nat admin_export" where
  "exportState rs = \<lparr>filteredReports = rs, stats = None, isExporting = False, exportToasts = [],
                      sonnerToasts = [], savedFiles = []\<rparr>"

text \<open>An admin page listing two report rows, the first selected for deletion.\<close>

definition rowOne :: "nat json" where
  "rowOne = JObj [(''id'', JStr ''r1''), (''file_name'', JStr ''clip.mp4'')]"

definition rowTwo :: "nat json" where
  "rowTwo = JObj [(''id'', JStr ''r2''), (''file_name'', JStr ''talk.mp4'')]"

definition adminPage :: "nat admin_page" where
  "adminPage = \<lparr>ap_user = Some ann, reports = JArr [rowOne, rowTwo], selectedReport = Some rowOne,
                 resultFilter = ''all'', dateFrom = [], dateTo = [], ap_isLoading = False,
                 isDeleting = False, showDeleteDialog = True, ap_toasts = [], ap_sonner = []\<rparr>"

definition selectAll :: "string \<Rightarrow> nat json \<Rightarrow> bool" where
  "selectAll url row = True"


section \<open>Properties of the upload input guard\<close>

text \<open>
  Claim C9. For every file, \<open>validateFile\<close> returns \<open>null\<close> exactly when the file's MIME
  type is one of \<open>video/mp4\<close>, \<open>video/avi\<close>, \<open>video/mov\<close>, \<open>video/webm\<close>,
  \<open>video/quicktime\<close> and its size is at most \<open>500 * 1024 * 1024\<close> bytes. For a file that
  violates either condition, \<open>validateFile\<close> returns a non-empty error message and the
  Dashboard's \<open>handleFileSelect\<close> leaves the selected file as it was and starts no upload.
\<close>

theorem validateFile_guard:
  "(validateFile toFixed1 f = None \<longleftrightarrow>
      f_type f \<in> {''video/mp4'', ''video/avi'', ''video/mov'', ''video/webm'', ''video/quicktime''}
      \<and> f_size f \<le> 500 * 1024 * 1024)
   \<and> (\<not> (f_type f \<in> {''video/mp4'', ''video/avi'', ''video/mov'', ''video/webm'', ''video/quicktime''}
          \<and> f_size f \<le> 500 * 1024 * 1024) \<longrightarrow>
        (\<exists>msg. validateFile toFixed1 f = Some msg \<and> msg \<noteq> [])
        \<and> selectedFile (handleFileSelect f st) = selectedFile st
        \<and> startedUploads (handleFileSelect f st) = startedUploads st)"
  by (auto simp: validateFile_def handleFileSelect_def allowedTypes_def maxSize_def)

theorem validateFile_guard_witness:
  "\<not> (f_type \<lparr>f_name = ''clip.mp4'', f_type = ''video/mp4'', f_size = 629145600\<rparr>
        \<in> {''video/mp4'', ''video/avi'', ''video/mov'', ''video/webm'', ''video/quicktime''}
      \<and> f_size \<lparr>f_name = ''clip.mp4'', f_type = ''video/mp4'', f_size = 629145600\<rparr>
        \<le> 500 * 1024 * 1024)
   \<and> (\<exists>msg. validateFile (\<lambda>n. ''600.0'')
               \<lparr>f_name = ''clip.mp4'', f_type = ''video/mp4'', f_size = 629145600\<rparr> = Some msg
            \<and> msg \<noteq> [])
   \<and> selectedFile (handleFileSelect
         \<lparr>f_name = ''clip.mp4'', f_type = ''video/mp4'', f_size = 629145600\<rparr>
         \<lparr>selectedFile = None, toasts = [], startedUploads = []\<rparr>) = None
   \<and> startedUploads (handleFileSelect
         \<lparr>f_name = ''clip.mp4'', f_type = ''video/mp4'', f_size = 629145600\<rparr>
         \<lparr>selectedFile = None, toasts = [], startedUploads = []\<rparr>) = []"
  using validateFile_guard
    [of "\<lambda>n. ''600.0''" "\<lparr>f_name = ''clip.mp4'', f_type = ''video/mp4'', f_size = 629145600\<rparr>"
        "\<lparr>selectedFile = None, toasts = [], startedUploads = []\<rparr>"]
  by simp

section \<open>Properties of the profile password form\<close>






section \<open>Properties of the API services\<close>

lemma httpErrorText_nonempty: "httpErrorText n \<noteq> []"
  by (simp add: httpErrorText_def)

lemma nullAccessMessage_nonempty: "nullAccessMessage k \<noteq> []"
  by (simp add: nullAccessMessage_def)

lemma errorReport_catch:
  "errorReport (JObj ([(''status'', JStr ''error''), (''message'', JStr m)] @ extra)) m"
  by (simp add: errorReport_def)

lemma getProp_optProp: "getProp j k = Inr m \<Longrightarrow> optProp j k = m"
  by (cases j) auto

text \<open>Each of the four try-bodies throws when the fetch failed.\<close>

lemma plain_failed:
  "failedFetch outcome \<Longrightarrow>
   \<exists>e. afterFetchPlain outcome = Inl e
       \<and> (fb \<noteq> [] \<longrightarrow> (errorMessage fb e = [] \<longleftrightarrow> emptyMessageFailure eng PlainBody outcome))"
  by (auto simp: failedFetch_def afterFetchPlain_def emptyMessageFailure_def errorMessage_def
        httpErrorText_nonempty split: fetch_outcome.splits thrown.splits)

lemma detailed_failed:
  assumes failed: "failedFetch outcome"
  shows "\<exists>e. afterFetchDetailed eng outcome = Inl e
       \<and> (fb \<noteq> [] \<longrightarrow> (errorMessage fb e = [] \<longleftrightarrow> emptyMessageFailure eng DetailedBody outcome))"
proof (cases outcome)
  case (Rejects e)
  then show ?thesis
    by (auto simp: afterFetchDetailed_def emptyMessageFailure_def errorMessage_def
          split: thrown.splits)
next
  case (Resolves r)
  with failed have nok: "\<not> resp_ok r" by (simp add: failedFetch_def)
  show ?thesis
  proof (cases "resp_body r")
    case (JsonBody j)
    show ?thesis
    proof (cases "getProp j ''message''")
      case (Inl e)
      then have "j = JNull" by (cases j) auto
      with Resolves nok JsonBody show ?thesis
        by (simp add: afterFetchDetailed_def responseJson_def errorMessage_def
              emptyMessageFailure_def nullAccessMessage_nonempty)
    next
      case (Inr m)
      with Resolves nok JsonBody getProp_optProp[OF Inr] show ?thesis
        by (cases m) (auto simp: afterFetchDetailed_def responseJson_def errorMessage_def
              emptyMessageFailure_def httpErrorText_nonempty)
    qed
  next
    case (NotJson e)
    with Resolves nok show ?thesis
      by (simp add: afterFetchDetailed_def responseJson_def errorMessage_def
            emptyMessageFailure_def httpErrorText_nonempty)
  next
    case (Unreadable e)
    with Resolves nok show ?thesis
      by (simp add: afterFetchDetailed_def responseJson_def errorMessage_def
            emptyMessageFailure_def httpErrorText_nonempty)
  qed
qed

lemma posts_failed:
  "failedFetch outcome \<Longrightarrow>
   \<exists>e. afterFetchPosts outcome = Inl e
       \<and> (fb \<noteq> [] \<longrightarrow> (errorMessage fb e = [] \<longleftrightarrow> emptyMessageFailure eng PostsBody outcome))"
  by (auto simp: failedFetch_def afterFetchPosts_def emptyMessageFailure_def errorMessage_def
        httpErrorText_nonempty split: fetch_outcome.splits thrown.splits body_read.splits)

lemma dashboard_failed:
  "failedFetch outcome \<Longrightarrow>
   \<exists>e. afterFetchDashboard eng outcome = Inl e
       \<and> (fb \<noteq> [] \<longrightarrow>
            (errorMessage fb e = [] \<longleftrightarrow> emptyMessageFailure eng DashboardBody outcome))"
  by (auto simp: failedFetch_def afterFetchDashboard_def emptyMessageFailure_def errorMessage_def
        httpErrorText_nonempty split: fetch_outcome.splits thrown.splits)

text \<open>The shared catch block turns the thrown value into the error report.\<close>

lemma reported_run:
  assumes fb: "fb \<noteq> []"
    and body: "failedFetch (net rq) \<Longrightarrow>
       \<exists>e. body = Inl e
           \<and> (fb \<noteq> [] \<longrightarrow> (errorMessage fb e = [] \<longleftrightarrow> emptyMessageFailure eng tb (net rq)))"
  shows "failureReported eng tb net \<lparr>returned = catchReport fb extra body, fetched = [rq]\<rparr>"
  unfolding failureReported_def
proof (intro exI[of _ rq] conjI impI)
  show "fetched \<lparr>returned = catchReport fb extra body, fetched = [rq]\<rparr> = [rq]" by simp
next
  assume "failedFetch (net rq)"
  from body[OF this] obtain e where e: "body = Inl e"
    and ne: "errorMessage fb e = [] \<longleftrightarrow> emptyMessageFailure eng tb (net rq)" using fb by blast
  show "\<exists>v m. returned \<lparr>returned = catchReport fb extra body, fetched = [rq]\<rparr> = Inr v \<and>
          errorReport v m \<and> (m = [] \<longleftrightarrow> emptyMessageFailure eng tb (net rq))"
    using e ne errorReport_catch[of "errorMessage fb e" extra]
    by (auto simp: catchReport_def)
qed

lemma plain_run:
  "fb \<noteq> [] \<Longrightarrow>
   failureReported eng PlainBody net
     \<lparr>returned = catchReport fb extra (afterFetchPlain (net rq)), fetched = [rq]\<rparr>"
  by (rule reported_run) (auto dest: plain_failed)

lemma detailed_run:
  "fb \<noteq> [] \<Longrightarrow>
   failureReported eng DetailedBody net
     \<lparr>returned = catchReport fb extra (afterFetchDetailed eng (net rq)), fetched = [rq]\<rparr>"
  by (rule reported_run) (auto dest: detailed_failed)

lemma posts_run:
  "fb \<noteq> [] \<Longrightarrow>
   failureReported eng PostsBody net
     \<lparr>returned = catchReport fb extra (afterFetchPosts (net rq)), fetched = [rq]\<rparr>"
  by (rule reported_run) (auto dest: posts_failed)

lemma dashboard_run:
  "fb \<noteq> [] \<Longrightarrow>
   failureReported eng DashboardBody net
     \<lparr>returned = catchReport fb extra (afterFetchDashboard eng (net rq)), fetched = [rq]\<rparr>"
  by (rule reported_run) (auto dest: dashboard_failed)

lemmas service_defs =
  AdminApiService_resetUserData_def AdminApiService_getAllUsers_def
  AdminApiService_getUserDetails_def AdminApiService_resetUserDataSingle_def
  AdminApiService_deleteUser_def AdminApiService_getAllReports_def
  AdminApiService_deleteReport_def SupportApiService_createExpertRequest_def
  SupportApiService_createComplaint_def SupportApiService_trackComplaint_def
  SupportApiService_subscribeNewsletter_def SupportApiService_getDailyTips_def
  DeepfakeApiService_makeRequest_def DeepfakeApiService_healthCheck_def
  DeepfakeApiService_predictVideo_def DeepfakeApiService_trainModel_def
  DeepfakeApiService_loadModel_def DeepfakeApiService_getModelInfo_def
  DeepfakeApiService_evaluateModel_def AnalysesApiService_createAnalysis_def
  ReportsApiService_getUserReports_def ReportsApiService_getAllReports_def
  ReportsApiService_createReport_def HistoryApiService_getHistory_def
  HistoryApiService_createHistory_def BlogsApiService_getAllBlogs_def
  BlogsApiService_getBlogById_def ForumApiService_makeRequest_def ForumApiService_getPosts_def
  ForumApiService_createPost_def ForumApiService_likePost_def ForumApiService_deletePost_def
  ForumApiService_getComments_def ForumApiService_createComment_def
  ForumApiService_deleteComment_def ProfileApiService_getProfile_def
  ProfileApiService_updateProfile_def DashboardApiService_getDashboard_def
  DashboardApiService_getNotifications_def DashboardApiService_markNotificationRead_def

lemma invoke_failureReported: "failureReported eng (tryBodyOf c) net (invoke eng c net)"
  by (cases c) (simp_all add: service_defs Let_def plain_run detailed_run posts_run dashboard_run)

text \<open>
  Claim C1, as amended. Every method of every API service class hands exactly one request
  to \<open>fetch\<close> per call (there is no retry). If that fetch rejects or resolves with a
  response that is not \<open>ok\<close>, the method's promise resolves (it does not reject) to an
  object whose \<open>status\<close> is \<open>'error'\<close> and whose \<open>message\<close> is a string. The string is
  empty in exactly these cases: the fetch rejected with an \<open>Error\<close> whose message is
  empty; or the method is one that throws \<open>errorData.message\<close> and the error response's
  JSON body has a truthy \<open>message\<close> that converts to the empty string; or the method is
  \<open>ForumApiService.getPosts\<close> and reading the error response's text rejected with an
  \<open>Error\<close> whose message is empty. In every other case, and so for every failure of the
  methods that throw the status error only, the message is non-empty.
\<close>

theorem service_failure_reported:
  "\<exists>rq. fetched (invoke eng c net) = [rq] \<and>
     (failedFetch (net rq) \<longrightarrow>
        (\<exists>v m. returned (invoke eng c net) = Inr v \<and> errorReport v m
               \<and> (m = [] \<longleftrightarrow> emptyMessageFailure eng (tryBodyOf c) (net rq))))"
  using invoke_failureReported[of eng c net] unfolding failureReported_def .

theorem service_failure_reported_witness:
  "failedFetch (downNet (deleteReportRequest ''r1'' ''a1''))
   \<and> \<not> emptyMessageFailure natEngine (tryBodyOf (Call_Admin_deleteReport ''r1'' ''a1''))
          (downNet (deleteReportRequest ''r1'' ''a1''))
   \<and> fetched (invoke natEngine (Call_Admin_deleteReport ''r1'' ''a1'') downNet)
       = [deleteReportRequest ''r1'' ''a1'']
   \<and> returned (invoke natEngine (Call_Admin_deleteReport ''r1'' ''a1'') downNet)
       = Inr (JObj [(''status'', JStr ''error''), (''message'', JStr ''Failed to fetch'')])
   \<and> errorReport (JObj [(''status'', JStr ''error''), (''message'', JStr ''Failed to fetch'')])
        ''Failed to fetch''
   \<and> failedFetch (oddNet (userReportsRequest ''u1''))
   \<and> \<not> emptyMessageFailure natEngine (tryBodyOf (Call_Reports_getUserReports ''u1''))
          (oddNet (userReportsRequest ''u1''))
   \<and> returned (invoke natEngine (Call_Reports_getUserReports ''u1'') oddNet)
       = Inr (JObj [(''status'', JStr ''error''), (''message'', JStr ''HTTP error! status: 500'')])"
proof -
  have status: "showNat 500 = ''500''" by (simp add: showNat.simps digitChar_def)
  from service_failure_reported[where eng = natEngine
         and c = "Call_Admin_deleteReport ''r1'' ''a1''" and net = downNet]
  have first: "failedFetch (downNet (deleteReportRequest ''r1'' ''a1''))
   \<and> \<not> emptyMessageFailure natEngine (tryBodyOf (Call_Admin_deleteReport ''r1'' ''a1''))
          (downNet (deleteReportRequest ''r1'' ''a1''))
   \<and> fetched (invoke natEngine (Call_Admin_deleteReport ''r1'' ''a1'') downNet)
       = [deleteReportRequest ''r1'' ''a1'']
   \<and> returned (invoke natEngine (Call_Admin_deleteReport ''r1'' ''a1'') downNet)
       = Inr (JObj [(''status'', JStr ''error''), (''message'', JStr ''Failed to fetch'')])
   \<and> errorReport (JObj [(''status'', JStr ''error''), (''message'', JStr ''Failed to fetch'')])
        ''Failed to fetch''"
    by (simp add: AdminApiService_deleteReport_def deleteReportRequest_def API_BASE_URL_def
          jsonHeaders_def downNet_def failedFetch_def emptyMessageFailure_def catchReport_def
          afterFetchDetailed_def errorMessage_def errorReport_def Let_def)
  have second: "failedFetch (oddNet (userReportsRequest ''u1''))
   \<and> \<not> emptyMessageFailure natEngine (tryBodyOf (Call_Reports_getUserReports ''u1''))
          (oddNet (userReportsRequest ''u1''))
   \<and> returned (invoke natEngine (Call_Reports_getUserReports ''u1'') oddNet)
       = Inr (JObj [(''status'', JStr ''error''), (''message'', JStr ''HTTP error! status: 500'')])"
    by (simp add: ReportsApiService_getUserReports_def oddNet_def failedFetch_def
          emptyMessageFailure_def catchReport_def afterFetchPlain_def errorMessage_def
          httpErrorText_def status Let_def)
  from first second show ?thesis by blast
qed

text \<open>
  The claim as stated asks for a non-empty message after every failed fetch. The message
  is the empty string when \<open>fetch\<close> rejects with an \<open>Error\<close> whose message is empty (shown
  for \<open>AdminApiService.deleteReport\<close> and \<open>ReportsApiService.getUserReports\<close>), when the
  backend answers \<open>deleteReport\<close> with 500 and the body \<open>{"message": []}\<close>, and when
  the backend answers \<open>ForumApiService.getPosts\<close> with 502 and reading the body rejects
  with an \<open>Error\<close> whose message is empty.
\<close>

theorem empty_message_counterexample:
  "failedFetch (silentNet (deleteReportRequest ''r1'' ''a1''))
   \<and> returned (invoke natEngine (Call_Admin_deleteReport ''r1'' ''a1'') silentNet)
       = Inr (JObj [(''status'', JStr ''error''), (''message'', JStr [])])
   \<and> failedFetch (oddNet (deleteReportRequest ''r1'' ''a1''))
   \<and> returned (invoke natEngine (Call_Admin_deleteReport ''r1'' ''a1'') oddNet)
       = Inr (JObj [(''status'', JStr ''error''), (''message'', JStr [])])
   \<and> fetched (invoke natEngine (Call_Reports_getUserReports ''u1'') silentNet)
       = [userReportsRequest ''u1'']
   \<and> failedFetch (silentNet (userReportsRequest ''u1''))
   \<and> returned (invoke natEngine (Call_Reports_getUserReports ''u1'') silentNet)
       = Inr (JObj [(''status'', JStr ''error''), (''message'', JStr [])])
   \<and> fetched (invoke natEngine (Call_Forum_getPosts None None) unreadableNet) = [postsRequest]
   \<and> failedFetch (unreadableNet postsRequest)
   \<and> returned (invoke natEngine (Call_Forum_getPosts None None) unreadableNet)
       = Inr (JObj [(''status'', JStr ''error''), (''message'', JStr []), (''posts'', JArr [])])"
  by (simp add: AdminApiService_deleteReport_def ReportsApiService_getUserReports_def
        ForumApiService_getPosts_def postsEndpoint_def postsParams_def searchParams_def
        userReportsRequest_def postsRequest_def API_BASE_URL_def jsonHeaders_def
        silentNet_def oddNet_def unreadableNet_def failedFetch_def
        catchReport_def afterFetchDetailed_def afterFetchPlain_def afterFetchPosts_def
        errorMessage_def responseJson_def Let_def)

text \<open>
  Claim C2, as amended. Every public API service method other than
  \<open>DeepfakeApiService.predictVideo\<close> sends a request with the header
  \<open>Content-Type: application/json\<close> whose body, when present, is the JSON text of an
  object. \<open>predictVideo\<close> sends a \<open>FormData\<close> body and sets no content type. The private
  \<open>makeRequest\<close> helpers send the body of their options, with the JSON content type unless
  the options carry a \<open>headers\<close> entry.
\<close>

theorem requests_json_except_upload:
  "(isUpload c \<longrightarrow>
      (\<forall>rq\<in>set (fetched (invoke eng c net)).
         header rq ''Content-Type'' = None \<and> (\<exists>entries. req_body rq = Some (FormData entries))))
   \<and> (\<not> isUpload c \<longrightarrow> \<not> privateHelper c \<longrightarrow>
      (\<forall>rq\<in>set (fetched (invoke eng c net)).
         header rq ''Content-Type'' = Some ''application/json''
         \<and> (req_body rq = None \<or> jsonObjectBody (req_body rq))))
   \<and> (c = Call_Deepfake_makeRequest endpoint options \<or> c = Call_Forum_makeRequest endpoint options \<longrightarrow>
      (\<forall>rq\<in>set (fetched (invoke eng c net)).
         req_body rq = init_body options
         \<and> req_headers rq = (case init_headers options of None \<Rightarrow> jsonHeaders | Some h \<Rightarrow> h)))"
  by (cases c)
     (auto simp: service_defs Let_def header_def jsonHeaders_def noOptions_def postJson_def
        withJson_def withMethod_def createAnalysisJson_def createReportJson_def
        createHistoryJson_def expertRequestJson_def complaintJson_def subscriptionJson_def
        updateProfileJson_def)

theorem requests_json_except_upload_witness:
  "\<not> isUpload (Call_Admin_deleteReport ''r1'' ''a1'' :: nat api_call)
   \<and> \<not> privateHelper (Call_Admin_deleteReport ''r1'' ''a1'' :: nat api_call)
   \<and> fetched (invoke natEngine (Call_Admin_deleteReport ''r1'' ''a1'') downNet)
       = [deleteReportRequest ''r1'' ''a1'']
   \<and> header (deleteReportRequest ''r1'' ''a1'') ''Content-Type'' = Some ''application/json''
   \<and> jsonObjectBody (req_body (deleteReportRequest ''r1'' ''a1''))
   \<and> isUpload (Call_Deepfake_predictVideo exampleVideo :: nat api_call)
   \<and> fetched (invoke natEngine (Call_Deepfake_predictVideo exampleVideo) downNet)
       = [predictRequest exampleVideo]
   \<and> header (predictRequest exampleVideo) ''Content-Type'' = None
   \<and> fetched (invoke natEngine (Call_Forum_makeRequest ''/forum/posts'' noOptions) downNet)
       = [\<lparr>req_url = ''http://localhost:5000/api/forum/posts'', req_method = None,
            req_headers = [(''Content-Type'', ''application/json'')], req_body = None\<rparr>]"
proof -
  have sent: "fetched (invoke natEngine (Call_Admin_deleteReport ''r1'' ''a1'') downNet)
       = [deleteReportRequest ''r1'' ''a1'']"
    "fetched (invoke natEngine (Call_Deepfake_predictVideo exampleVideo) downNet)
       = [predictRequest exampleVideo]"
    "fetched (invoke natEngine (Call_Forum_makeRequest ''/forum/posts'' noOptions) downNet)
       = [\<lparr>req_url = ''http://localhost:5000/api/forum/posts'', req_method = None,
            req_headers = [(''Content-Type'', ''application/json'')], req_body = None\<rparr>]"
    by (simp_all add: AdminApiService_deleteReport_def deleteReportRequest_def API_BASE_URL_def
          jsonHeaders_def DeepfakeApiService_predictVideo_def predictRequest_def
          ForumApiService_makeRequest_def noOptions_def Let_def)
  from requests_json_except_upload
         [where c = "Call_Admin_deleteReport ''r1'' ''a1''" and eng = natEngine and net = downNet]
       sent(1)
  have a: "header (deleteReportRequest ''r1'' ''a1'') ''Content-Type'' = Some ''application/json''"
    by simp
  from requests_json_except_upload
         [where c = "Call_Deepfake_predictVideo exampleVideo" and eng = natEngine and net = downNet]
       sent(2)
  have b: "header (predictRequest exampleVideo) ''Content-Type'' = None"
    by simp
  have c: "jsonObjectBody (req_body (deleteReportRequest ''r1'' ''a1''))"
    by (simp add: deleteReportRequest_def)
  from sent a b c show ?thesis by simp
qed

text \<open>
  The claim as stated covers every API service method. \<open>predictVideo\<close> posts the file as
  multipart form data: its request sets no \<open>Content-Type\<close> header and its body is not JSON.
\<close>

theorem upload_not_json_counterexample:
  "fetched (invoke natEngine (Call_Deepfake_predictVideo exampleVideo) downNet)
     = [predictRequest exampleVideo]
   \<and> header (predictRequest exampleVideo) ''Content-Type'' = None
   \<and> req_body (predictRequest exampleVideo) = Some (FormData [(''file'', exampleVideo)])
   \<and> \<not> jsonObjectBody (req_body (predictRequest exampleVideo))"
  by (simp add: DeepfakeApiService_predictVideo_def predictRequest_def API_BASE_URL_def
        header_def Let_def)

section \<open>Properties of session handling\<close>

lemma optProp_getProp: "optProp d k = Some v \<Longrightarrow> getProp d k = Inr (Some v)"
  by (cases d) auto

text \<open>
  Claim C3. For every \<open>login\<close> call whose response body carries status \<open>'success'\<close>
  together with a (truthy) user and a (truthy) token, the session object with fields
  \<open>loggedIn = true\<close>, \<open>user\<close>, \<open>token\<close> and \<open>createdAt\<close> is stored, serialised, in
  \<open>localStorage\<close> under the key \<open>authSession\<close>, the user becomes the current user and
  \<open>login\<close> returns \<open>true\<close>. For every \<open>logout\<close> call, the key \<open>authSession\<close> is removed
  from \<open>localStorage\<close> and the current user becomes \<open>null\<close>.
\<close>

theorem login_logout_session:
  "(net (loginRequest email password) = Resolves response
      \<and> responseJson response = Inr data
      \<and> optProp data ''status'' = Some (JStr ''success'')
      \<and> optProp data ''user'' = Some u \<and> truthy eng u
      \<and> optProp data ''token'' = Some t \<and> truthy eng t
    \<longrightarrow> snd (login eng stringify now net email password w) = True
        \<and> localStorage (fst (login eng stringify now net email password w)) ''authSession''
            = Some (stringify (JObj [(''loggedIn'', JBool True), (''user'', u), (''token'', t),
                                     (''createdAt'', JNum now)]))
        \<and> currentUser (fst (login eng stringify now net email password w)) = Some u)
   \<and> localStorage (logout w) ''authSession'' = None
   \<and> currentUser (logout w) = None"
proof (intro conjI impI)
  assume a: "net (loginRequest email password) = Resolves response
      \<and> responseJson response = Inr data
      \<and> optProp data ''status'' = Some (JStr ''success'')
      \<and> optProp data ''user'' = Some u \<and> truthy eng u
      \<and> optProp data ''token'' = Some t \<and> truthy eng t"
  then have st: "getProp data ''status'' = Inr (Some (JStr ''success''))"
    by (simp add: optProp_getProp)
  from a st have run: "login eng stringify now net email password w =
      (w\<lparr>localStorage := (localStorage w)(''authSession'' \<mapsto> stringify (sessionObject u t now)),
         currentUser := Some u,
         authToasts := ToastSuccess (''Login successful! Redirecting'' @ [CHR 0xE2, CHR 0x80, CHR 0xA6])
                       # authToasts w\<rparr>, True)"
    by (simp add: login_def)
  show "snd (login eng stringify now net email password w) = True"
    by (simp add: run)
  show "localStorage (fst (login eng stringify now net email password w)) ''authSession''
            = Some (stringify (JObj [(''loggedIn'', JBool True), (''user'', u), (''token'', t),
                                     (''createdAt'', JNum now)]))"
    by (simp add: run sessionObject_def)
  show "currentUser (fst (login eng stringify now net email password w)) = Some u"
    by (simp add: run)
next
  show "localStorage (logout w) ''authSession'' = None" by (simp add: logout_def)
  show "currentUser (logout w) = None" by (simp add: logout_def)
qed

theorem login_logout_session_witness:
  "loginNet (loginRequest ''ann@example.org'' ''secret'') = Resolves loginResponse
   \<and> responseJson loginResponse = Inr loginData
   \<and> optProp loginData ''status'' = Some (JStr ''success'')
   \<and> optProp loginData ''user'' = Some annUser \<and> truthy natEngine annUser
   \<and> optProp loginData ''token'' = Some (JStr ''tok-1'') \<and> truthy natEngine (JStr ''tok-1'')
   \<and> snd (login natEngine jsonText 1700000000000 loginNet ''ann@example.org'' ''secret'' freshWorld)
   \<and> localStorage
        (fst (login natEngine jsonText 1700000000000 loginNet ''ann@example.org'' ''secret'' freshWorld))
        ''authSession'' = Some (jsonText annSession)
   \<and> currentUser
        (fst (login natEngine jsonText 1700000000000 loginNet ''ann@example.org'' ''secret'' freshWorld))
       = Some annUser
   \<and> localStorage (logout storedWorld) ''authSession'' = None
   \<and> currentUser (logout storedWorld) = None"
proof -
  have hyp: "loginNet (loginRequest ''ann@example.org'' ''secret'') = Resolves loginResponse
      \<and> responseJson loginResponse = Inr loginData
      \<and> optProp loginData ''status'' = Some (JStr ''success'')
      \<and> optProp loginData ''user'' = Some annUser \<and> truthy natEngine annUser
      \<and> optProp loginData ''token'' = Some (JStr ''tok-1'') \<and> truthy natEngine (JStr ''tok-1'')"
    by (simp add: loginNet_def loginResponse_def responseJson_def loginData_def annUser_def)
  have logout_fields: "localStorage (logout storedWorld) ''authSession'' = None"
    "currentUser (logout storedWorld) = None"
    by (simp_all add: logout_def)
  have session: "annSession = JObj [(''loggedIn'', JBool True), (''user'', annUser),
                                    (''token'', JStr ''tok-1''), (''createdAt'', JNum 1700000000000)]"
    by (simp add: annSession_def sessionObject_def)
  from login_logout_session
         [where net = loginNet and email = "''ann@example.org''" and password = "''secret''"
            and response = loginResponse and data = loginData and u = annUser and eng = natEngine
            and t = "JStr ''tok-1''" and stringify = jsonText and now = 1700000000000
            and w = freshWorld]
       logout_fields
       hyp session
  show ?thesis by simp
qed

lemma clearSession_fields:
  "localStorage (clearSession w) ''authSession'' = None" "currentUser (clearSession w) = None"
  by (simp_all add: clearSession_def)

lemma verifySession_user:
  "currentUser (verifySession eng net session w) = optProp session ''user''
   \<or> verifySession eng net session w = clearSession w"
  by (simp add: verifySession_def split: fetch_outcome.splits sum.splits)

text \<open>
  Claim C10, as amended. When the key \<open>authSession\<close> is absent or holds the empty string,
  \<open>checkAuth\<close> changes neither \<open>localStorage\<close> nor the user: it only clears
  \<open>isLoading\<close>. Otherwise, after \<open>checkAuth\<close> the user is non-null only if the stored
  value parsed to a value whose \<open>loggedIn\<close>, \<open>user\<close> and \<open>token\<close> are all truthy, and the
  user is then the stored user; in every other case (unparsable text, or one of the three
  fields missing or falsy) the key is removed and the user is \<open>null\<close>. Hence, starting with
  no user as at mount, the user is non-null afterwards only if a session passing that test
  was stored.
\<close>

theorem checkAuth_outcome:
  "(localStorage w ''authSession'' = None \<or> localStorage w ''authSession'' = Some []
      \<longrightarrow> checkAuth eng parse net w = w\<lparr>isLoading := False\<rparr>)
   \<and> (localStorage w ''authSession'' = Some raw \<and> raw \<noteq> [] \<longrightarrow>
        (currentUser (checkAuth eng parse net w) \<noteq> None \<longrightarrow>
           validSession eng parse raw
           \<and> (\<exists>session. parse raw = Some session
                 \<and> currentUser (checkAuth eng parse net w) = optProp session ''user''))
        \<and> (\<not> validSession eng parse raw \<longrightarrow>
             localStorage (checkAuth eng parse net w) ''authSession'' = None
             \<and> currentUser (checkAuth eng parse net w) = None))
   \<and> (currentUser w = None \<and> currentUser (checkAuth eng parse net w) \<noteq> None \<longrightarrow>
        (\<exists>stored. localStorage w ''authSession'' = Some stored \<and> validSession eng parse stored))"
proof (intro conjI impI)
  assume "localStorage w ''authSession'' = None \<or> localStorage w ''authSession'' = Some []"
  then show "checkAuth eng parse net w = w\<lparr>isLoading := False\<rparr>"
    by (auto simp: checkAuth_def)
next
  assume stored: "localStorage w ''authSession'' = Some raw \<and> raw \<noteq> []"
  {
    assume nonnull: "currentUser (checkAuth eng parse net w) \<noteq> None"
    show valid: "validSession eng parse raw"
    proof (rule ccontr)
      assume "\<not> validSession eng parse raw"
      with stored have "checkAuth eng parse net w = (clearSession w)\<lparr>isLoading := False\<rparr>"
        by (auto simp: checkAuth_def validSession_def split: option.splits)
      with nonnull show False by (simp add: clearSession_fields)
    qed
    then obtain session where session: "parse raw = Some session"
      and ok: "truthyOpt eng (optProp session ''loggedIn'')
               \<and> truthyOpt eng (optProp session ''user'')
               \<and> truthyOpt eng (optProp session ''token'')"
      by (auto simp: validSession_def split: option.splits)
    with stored
    have run: "checkAuth eng parse net w = (verifySession eng net session w)\<lparr>isLoading := False\<rparr>"
      by (simp add: checkAuth_def)
    from verifySession_user[of eng net session w] nonnull run
    have "currentUser (checkAuth eng parse net w) = optProp session ''user''"
      by (auto simp: clearSession_fields)
    with session show "\<exists>session. parse raw = Some session
                 \<and> currentUser (checkAuth eng parse net w) = optProp session ''user''"
      by blast
  }
  {
    assume "\<not> validSession eng parse raw"
    with stored have run: "checkAuth eng parse net w = (clearSession w)\<lparr>isLoading := False\<rparr>"
      by (auto simp: checkAuth_def validSession_def split: option.splits)
    show "localStorage (checkAuth eng parse net w) ''authSession'' = None"
      by (simp add: run clearSession_fields)
    show "currentUser (checkAuth eng parse net w) = None"
      by (simp add: run clearSession_fields)
  }
next
  assume mount: "currentUser w = None \<and> currentUser (checkAuth eng parse net w) \<noteq> None"
  show "\<exists>stored. localStorage w ''authSession'' = Some stored \<and> validSession eng parse stored"
  proof (cases "localStorage w ''authSession''")
    case None
    then have "checkAuth eng parse net w = w\<lparr>isLoading := False\<rparr>" by (simp add: checkAuth_def)
    with mount show ?thesis by auto
  next
    case (Some stored)
    show ?thesis
    proof (cases "validSession eng parse stored")
      case True
      with Some show ?thesis by simp
    next
      case False
      with Some have "checkAuth eng parse net w = w\<lparr>isLoading := False\<rparr>
          \<or> checkAuth eng parse net w = (clearSession w)\<lparr>isLoading := False\<rparr>"
        by (auto simp: checkAuth_def validSession_def split: option.splits)
      with mount show ?thesis by (auto simp: clearSession_fields)
    qed
  qed
qed

theorem checkAuth_outcome_witness:
  "localStorage freshWorld ''authSession'' = None
   \<and> checkAuth natEngine exampleParse okNet freshWorld = freshWorld\<lparr>isLoading := False\<rparr>
   \<and> localStorage storedWorld ''authSession'' = Some (jsonText annSession)
   \<and> currentUser storedWorld = None
   \<and> currentUser (checkAuth natEngine exampleParse okNet storedWorld) = Some annUser
   \<and> validSession natEngine exampleParse (jsonText annSession)
   \<and> localStorage garbageWorld ''authSession'' = Some ''not json''
   \<and> \<not> validSession natEngine exampleParse ''not json''
   \<and> localStorage (checkAuth natEngine exampleParse okNet garbageWorld) ''authSession'' = None
   \<and> currentUser (checkAuth natEngine exampleParse okNet garbageWorld) = None"
proof -
  have text_ne: "jsonText annSession \<noteq> []" "jsonText annSession \<noteq> ''not json''"
    by (simp_all add: annSession_def sessionObject_def)
  have fresh: "localStorage freshWorld ''authSession'' = None"
    by (simp add: freshWorld_def emptyStorage_def)
  have stored: "localStorage storedWorld ''authSession'' = Some (jsonText annSession)"
    "currentUser storedWorld = None"
    by (simp_all add: storedWorld_def)
  have signedIn: "currentUser (checkAuth natEngine exampleParse okNet storedWorld) = Some annUser"
    using text_ne
    by (simp add: checkAuth_def storedWorld_def exampleParse_def annSession_def sessionObject_def
          annUser_def verifySession_def okNet_def responseJson_def natEngine_def)
  have garbage: "localStorage garbageWorld ''authSession'' = Some ''not json''"
    by (simp add: garbageWorld_def)
  have invalid: "\<not> validSession natEngine exampleParse ''not json''"
    using text_ne by (auto simp: validSession_def exampleParse_def)
  from checkAuth_outcome[where w = freshWorld and raw = "[]" and eng = natEngine and parse = exampleParse
         and net = okNet] fresh
  have a: "checkAuth natEngine exampleParse okNet freshWorld = freshWorld\<lparr>isLoading := False\<rparr>"
    by simp
  from checkAuth_outcome[where w = storedWorld and raw = "jsonText annSession" and eng = natEngine
         and parse = exampleParse and net = okNet]
       stored signedIn text_ne
  have b: "validSession natEngine exampleParse (jsonText annSession)"
    by simp
  from checkAuth_outcome[where w = garbageWorld and raw = "''not json''" and eng = natEngine
         and parse = exampleParse and net = okNet]
       garbage invalid
  have c: "localStorage (checkAuth natEngine exampleParse okNet garbageWorld) ''authSession'' = None"
    "currentUser (checkAuth natEngine exampleParse okNet garbageWorld) = None"
    by simp_all
  from fresh a stored signedIn b garbage invalid c show ?thesis by simp
qed

text \<open>
  The claim as stated fails where \<open>checkAuth\<close> returns early. With Ann signed in and the
  key absent (her session was removed in another tab), the user is still Ann afterwards
  although no session is stored; with the empty string stored under the key, which is not
  JSON, the key is still there afterwards.
\<close>

theorem checkAuth_early_return_counterexample:
  "localStorage staleWorld ''authSession'' = None
   \<and> currentUser (checkAuth natEngine exampleParse downNet staleWorld) = Some annUser
   \<and> localStorage blankWorld ''authSession'' = Some []
   \<and> exampleParse [] = None
   \<and> localStorage (checkAuth natEngine exampleParse downNet blankWorld) ''authSession'' = Some []"
proof -
  have "jsonText annSession \<noteq> []" by (simp add: annSession_def sessionObject_def)
  then show ?thesis
    by (simp add: checkAuth_def staleWorld_def blankWorld_def emptyStorage_def exampleParse_def)
qed

section \<open>Properties of the header's notifications\<close>

lemma markNotificationRead_returns:
  "\<exists>v. returned (DashboardApiService_markNotificationRead eng nid uid net) = Inr v"
  by (auto simp: DashboardApiService_markNotificationRead_def Let_def catchReport_def
        split: sum.splits)

text \<open>
  Claim C6, as amended. When a user with a non-empty id is signed in, then for every
  notifications list and every notification id, \<open>handleMarkAsRead\<close> sets \<open>is_read\<close> to
  \<open>true\<close> in the notifications with that id and leaves every other notification, and
  every other field of the changed ones, as it was (the list keeps its length and order);
  it decrements \<open>unreadCount\<close> by exactly one unless the count is already 0, in which case
  it stays 0. Without a user, or with a user whose id is empty, \<open>handleMarkAsRead\<close>
  changes nothing.
\<close>

theorem handleMarkAsRead_frame:
  "(hdr_user st = Some u \<and> auth_id u \<noteq> [] \<longrightarrow>
      length (notifications (handleMarkAsRead eng net nid st)) = length (notifications st)
      \<and> (\<forall>i < length (notifications st).
            (n_id (notifications st ! i) = nid \<longrightarrow>
               notifications (handleMarkAsRead eng net nid st) ! i
                 = (notifications st ! i)\<lparr>is_read := True\<rparr>)
            \<and> (n_id (notifications st ! i) \<noteq> nid \<longrightarrow>
               notifications (handleMarkAsRead eng net nid st) ! i = notifications st ! i))
      \<and> (0 < unreadCount st \<longrightarrow>
            unreadCount (handleMarkAsRead eng net nid st) = unreadCount st - 1)
      \<and> (unreadCount st \<le> 0 \<longrightarrow> unreadCount (handleMarkAsRead eng net nid st) = 0)
      \<and> hdr_user (handleMarkAsRead eng net nid st) = hdr_user st
      \<and> hdr_isAuthenticated (handleMarkAsRead eng net nid st) = hdr_isAuthenticated st)
   \<and> (hdr_user st = None \<or> (\<exists>u. hdr_user st = Some u \<and> auth_id u = []) \<longrightarrow>
        handleMarkAsRead eng net nid st = st)"
proof (intro conjI impI)
  assume "hdr_user st = None \<or> (\<exists>u. hdr_user st = Some u \<and> auth_id u = [])"
  then show "handleMarkAsRead eng net nid st = st"
    by (auto simp: handleMarkAsRead_def)
next
  assume signedIn: "hdr_user st = Some u \<and> auth_id u \<noteq> []"
  from markNotificationRead_returns[of eng nid "auth_id u" net] obtain v
    where "returned (DashboardApiService_markNotificationRead eng nid (auth_id u) net) = Inr v" ..
  with signedIn have run: "handleMarkAsRead eng net nid st =
      st\<lparr>notifications :=
           map (\<lambda>n. if n_id n = nid then n\<lparr>is_read := True\<rparr> else n) (notifications st),
         unreadCount := max 0 (unreadCount st - 1)\<rparr>"
    by (simp add: handleMarkAsRead_def)
  show "length (notifications (handleMarkAsRead eng net nid st)) = length (notifications st)"
    by (simp add: run)
  show "\<forall>i < length (notifications st).
            (n_id (notifications st ! i) = nid \<longrightarrow>
               notifications (handleMarkAsRead eng net nid st) ! i
                 = (notifications st ! i)\<lparr>is_read := True\<rparr>)
            \<and> (n_id (notifications st ! i) \<noteq> nid \<longrightarrow>
               notifications (handleMarkAsRead eng net nid st) ! i = notifications st ! i)"
    by (simp add: run)
  show "hdr_user (handleMarkAsRead eng net nid st) = hdr_user st" by (simp add: run)
  show "hdr_isAuthenticated (handleMarkAsRead eng net nid st) = hdr_isAuthenticated st"
    by (simp add: run)
  {
    assume "0 < unreadCount st"
    then show "unreadCount (handleMarkAsRead eng net nid st) = unreadCount st - 1"
      by (simp add: run)
  }
  {
    assume "unreadCount st \<le> 0"
    then show "unreadCount (handleMarkAsRead eng net nid st) = 0"
      by (simp add: run)
  }
qed

theorem handleMarkAsRead_frame_witness:
  "hdr_user signedInHeader = Some ann \<and> auth_id ann = ''u1''
   \<and> notifications signedInHeader = [reportReady] \<and> n_id reportReady = ''n1''
   \<and> unreadCount signedInHeader = 1
   \<and> notifications (handleMarkAsRead natEngine downNet ''n1'' signedInHeader)
       = [reportReady\<lparr>is_read := True\<rparr>]
   \<and> unreadCount (handleMarkAsRead natEngine downNet ''n1'' signedInHeader) = 0
   \<and> hdr_user blankIdHeader = Some blankIdUser \<and> auth_id blankIdUser = []
   \<and> handleMarkAsRead natEngine downNet ''n1'' blankIdHeader = blankIdHeader"
proof -
  have out: "hdr_user blankIdHeader = Some blankIdUser" "auth_id blankIdUser = []"
    by (simp_all add: blankIdHeader_def blankIdUser_def)
  from handleMarkAsRead_frame[where st = blankIdHeader and eng = natEngine and net = downNet
         and nid = "''n1''"] out
  have same: "handleMarkAsRead natEngine downNet ''n1'' blankIdHeader = blankIdHeader"
    by simp
  have u: "hdr_user signedInHeader = Some ann \<and> auth_id ann \<noteq> []"
    by (simp add: signedInHeader_def ann_def)
  have ns: "notifications signedInHeader = [reportReady]" "unreadCount signedInHeader = 1"
    "n_id reportReady = ''n1''"
    by (simp_all add: signedInHeader_def reportReady_def)
  from handleMarkAsRead_frame[where st = signedInHeader and u = ann and eng = natEngine
         and net = downNet and nid = "''n1''"] u ns
  have len: "length (notifications (handleMarkAsRead natEngine downNet ''n1'' signedInHeader)) = 1"
    and hd: "notifications (handleMarkAsRead natEngine downNet ''n1'' signedInHeader) ! 0
               = reportReady\<lparr>is_read := True\<rparr>"
    and cnt: "unreadCount (handleMarkAsRead natEngine downNet ''n1'' signedInHeader) = 0"
    by auto
  from len hd have "notifications (handleMarkAsRead natEngine downNet ''n1'' signedInHeader)
       = [reportReady\<lparr>is_read := True\<rparr>]"
    by (cases "notifications (handleMarkAsRead natEngine downNet ''n1'' signedInHeader)") auto
  with u ns cnt out same show ?thesis by (simp add: ann_def)
qed

text \<open>
  The claim as stated speaks of every notifications list and every id in it. When the
  signed-in user's id is the empty string, the notification menu is shown
  (\<open>isAuthenticated\<close> holds) and a click on the notification calls \<open>handleMarkAsRead\<close>,
  which returns at its guard: the notification stays unread and the count stays 1.
\<close>

theorem empty_id_mark_counterexample:
  "hdr_user blankIdHeader = Some blankIdUser
   \<and> auth_id blankIdUser = []
   \<and> hdr_isAuthenticated blankIdHeader = True
   \<and> n_id (notifications blankIdHeader ! 0) = ''n1''
   \<and> is_read (notifications blankIdHeader ! 0) = False
   \<and> is_read (notifications (handleMarkAsRead natEngine downNet ''n1'' blankIdHeader) ! 0) = False
   \<and> unreadCount blankIdHeader = 1
   \<and> unreadCount (handleMarkAsRead natEngine downNet ''n1'' blankIdHeader) = 1"
  by (simp add: handleMarkAsRead_def blankIdHeader_def blankIdUser_def reportReady_def)

section \<open>Properties of the polling timers\<close>

lemma filter_fresh:
  "list_all (\<lambda>t. timer_id t < n) xs \<Longrightarrow> filter (\<lambda>t. timer_id t \<noteq> n) xs = xs"
  by (induction xs) auto

lemma pollEvery_pollsWith: "timersOk ts \<Longrightarrow> pollsWith p d ts (pollEvery p d ts)"
  by (simp add: pollsWith_def pollEvery_def setInterval_def runCleanup_def clearInterval_def
        timersOk_def filter_fresh)

text \<open>
  Claim C5, as amended. The client polls on fixed intervals with plain interval timers:
  while a user with a non-empty id is authenticated, the header's effect refetches
  notifications at once and every 30000 ms; while there is a user with a non-empty id, the
  Dashboard's effect refetches the dashboard data at once and every 30000 ms; the Forum's
  effect refetches the posts at once and every 10000 ms, whoever the user is. Each of them
  then returns a cleanup that clears exactly the timer it set. Without such a user the
  first two effects call nothing, set no timer and return no cleanup.
\<close>

theorem polling_effects:
  "timersOk ts \<longrightarrow>
     (user = Some u \<and> auth_id u \<noteq> [] \<and> isAuthenticated \<longrightarrow>
        pollsWith FetchNotifications 30000 ts (AppHeader_effect user isAuthenticated ts))
     \<and> (user = None \<or> (\<exists>v. user = Some v \<and> auth_id v = []) \<or> \<not> isAuthenticated \<longrightarrow>
        AppHeader_effect user isAuthenticated ts = noEffect ts)
     \<and> (user = Some u \<and> auth_id u \<noteq> [] \<longrightarrow>
        pollsWith FetchDashboardData 30000 ts (Dashboard_effect user ts))
     \<and> (user = None \<or> (\<exists>v. user = Some v \<and> auth_id v = []) \<longrightarrow>
        Dashboard_effect user ts = noEffect ts)
     \<and> pollsWith FetchPosts 10000 ts (Forum_effect ts)"
  by (auto simp: AppHeader_effect_def Dashboard_effect_def Forum_effect_def pollEvery_pollsWith
        split: option.splits)

theorem polling_effects_witness:
  "timersOk noTimers
   \<and> auth_id ann = ''u1''
   \<and> pollsWith FetchNotifications 30000 noTimers (AppHeader_effect (Some ann) True noTimers)
   \<and> pollsWith FetchDashboardData 30000 noTimers (Dashboard_effect (Some ann) noTimers)
   \<and> pollsWith FetchPosts 10000 noTimers (Forum_effect noTimers)
   \<and> timersAfter (AppHeader_effect (Some ann) True noTimers)
       = \<lparr>active = [\<lparr>timer_id = 1, timer_delay = 30000, timer_callback = FetchNotifications\<rparr>],
          nextId = 2\<rparr>
   \<and> active (runCleanup (AppHeader_effect (Some ann) True noTimers)) = []
   \<and> AppHeader_effect None False noTimers = noEffect noTimers
   \<and> Dashboard_effect None noTimers = noEffect noTimers"
proof -
  from polling_effects[where ts = noTimers and user = None and isAuthenticated = False]
  have idle: "timersOk noTimers \<longrightarrow>
      AppHeader_effect None False noTimers = noEffect noTimers
      \<and> Dashboard_effect None noTimers = noEffect noTimers"
    by simp
  have ok: "timersOk noTimers" by (simp add: timersOk_def noTimers_def)
  have u: "auth_id ann = ''u1''" by (simp add: ann_def)
  have ev: "timersAfter (AppHeader_effect (Some ann) True noTimers)
       = \<lparr>active = [\<lparr>timer_id = 1, timer_delay = 30000, timer_callback = FetchNotifications\<rparr>],
          nextId = 2\<rparr>"
    "active (runCleanup (AppHeader_effect (Some ann) True noTimers)) = []"
    by (simp_all add: AppHeader_effect_def ann_def pollEvery_def setInterval_def noTimers_def
          runCleanup_def clearInterval_def)
  from polling_effects[where ts = noTimers and user = "Some ann" and u = ann
         and isAuthenticated = True] ok u ev idle
  show ?thesis by simp
qed

text \<open>
  The claim as stated has the header poll the notifications in every state. In the header
  of a visitor who is not signed in the effect does nothing: no refetch, no timer, no
  cleanup. The same holds for the Dashboard's effect without a user.
\<close>

theorem signed_out_no_polling_counterexample:
  "called (AppHeader_effect None False noTimers) = []
   \<and> active (timersAfter (AppHeader_effect None False noTimers)) = []
   \<and> cleanup (AppHeader_effect None False noTimers) = None
   \<and> called (Dashboard_effect None noTimers) = []
   \<and> active (timersAfter (Dashboard_effect None noTimers)) = []
   \<and> cleanup (Dashboard_effect None noTimers) = None"
  by (simp add: AppHeader_effect_def Dashboard_effect_def noEffect_def noTimers_def)

section \<open>Properties of the report export\<close>

text \<open>Splitting the joined lines gives the lines back when none of them has a line feed.\<close>

lemma splitLines_nonempty: "splitLines s \<noteq> []"
  by (induction s) (auto split: list.splits)

lemma splitLines_plain: "0x0A \<notin> set s \<Longrightarrow> splitLines s = [s]"
  by (induction s) auto

lemma splitLines_append:
  "0x0A \<notin> set s \<Longrightarrow> splitLines (s @ 0x0A # rest) = s # splitLines rest"
  by (induction s) auto

lemma splitLines_joinWith:
  "ls \<noteq> [] \<Longrightarrow> \<forall>l\<in>set ls. 0x0A \<notin> set l \<Longrightarrow> splitLines (joinWith [0x0A] ls) = ls"
proof (induction ls rule: induct_list012)
  case 1
  then show ?case by simp
next
  case (2 x)
  then show ?case by (simp add: splitLines_plain)
next
  case (3 x y zs)
  then show ?case by (simp add: splitLines_append)
qed

lemma joinWith_avoids:
  "c \<notin> set sep \<Longrightarrow> \<forall>x\<in>set xs. c \<notin> set x \<Longrightarrow> c \<notin> set (joinWith sep xs)"
  by (induction sep xs rule: joinWith.induct) auto

lemma joinWith_Cons: "joinWith sep (x # xs) = x @ concat (map (\<lambda>y. sep @ y) xs)"
  by (induction xs arbitrary: x) auto

text \<open>The header line and the line of a report, written out.\<close>

lemma headerLine: "joinWith [0x2C] csvHeaders = units ''Report ID,User Email,File Name,Confidence %,Result,Date''"
  by (simp add: csvHeaders_def units_def unit_def)

lemma header_no_lf: "0x0A \<notin> set (units ''Report ID,User Email,File Name,Confidence %,Result,Date'')"
  by (simp add: units_def unit_def)

lemma rowLine: "joinWith [0x2C] (map quoteCell (csvRow fmt r)) = quotedRecord fmt r"
  by (simp add: csvRow_def quoteCell_def quotedRecord_def)

lemma rowLine_no_lf:
  assumes "\<forall>cell\<in>set (csvRow fmt r). 0x0A \<notin> set cell"
  shows "0x0A \<notin> set (quotedRecord fmt r)"
proof -
  from assms have "0x0A \<notin> set (joinWith [0x2C] (map quoteCell (csvRow fmt r)))"
    by (intro joinWith_avoids) (auto simp: quoteCell_def)
  then show ?thesis by (simp add: rowLine)
qed

lemma csv_structure:
  "csvContent fmt rs = units ''Report ID,User Email,File Name,Confidence %,Result,Date'' @ concat (map (\<lambda>r. 0x0A # quotedRecord fmt r) rs)"
  by (simp add: csvContent_def joinWith_Cons headerLine rowLine comp_def)

lemma csv_first_line: "hd (splitLines (csvContent fmt rs)) = units ''Report ID,User Email,File Name,Confidence %,Result,Date''"
proof (cases rs)
  case Nil
  then show ?thesis by (simp add: csv_structure splitLines_plain[OF header_no_lf])
next
  case (Cons r rest)
  then show ?thesis by (simp add: csv_structure splitLines_append[OF header_no_lf])
qed

lemma csv_lines:
  assumes "\<forall>r\<in>set rs. \<forall>cell\<in>set (csvRow fmt r). 0x0A \<notin> set cell"
  shows "splitLines (csvContent fmt rs) = units ''Report ID,User Email,File Name,Confidence %,Result,Date'' # map (quotedRecord fmt) rs"
proof -
  have "\<forall>l\<in>set (joinWith [0x2C] csvHeaders
        # map (\<lambda>row. joinWith [0x2C] (map quoteCell row)) (map (csvRow fmt) rs)). 0x0A \<notin> set l"
    using assms header_no_lf by (auto simp: headerLine rowLine rowLine_no_lf)
  then have "splitLines (csvContent fmt rs) = joinWith [0x2C] csvHeaders
        # map (\<lambda>row. joinWith [0x2C] (map quoteCell row)) (map (csvRow fmt) rs)"
    unfolding csvContent_def by (intro splitLines_joinWith) simp_all
  then show ?thesis by (simp add: headerLine rowLine comp_def)
qed

text \<open>Text draws only accumulate; the weight is normal again after every row.\<close>

lemma drawCells_fields:
  "fontSize (drawCells cs ws x y d) = fontSize d"
  "bold (drawCells cs ws x y d) = bold d"
  "donePages (drawCells cs ws x y d) = donePages d"
  by (induction cs ws x y d rule: drawCells.induct) (simp_all add: drawText_def)

lemma drawCells_texts:
  "length cs \<le> length ws \<Longrightarrow>
   pt_text ` set (thisPage (drawCells cs ws x y d)) = pt_text ` set (thisPage d) \<union> set cs"
  by (induction cs ws x y d rule: drawCells.induct) (auto simp: drawText_def)

lemma drawnTexts_alt: "drawnTexts d = pt_text ` (\<Union> (set ` set (donePages d)) \<union> set (thisPage d))"
  by (auto simp: drawnTexts_def pages_def)

lemma drawnTexts_drawCells:
  "length cs \<le> length ws \<Longrightarrow> drawnTexts (drawCells cs ws x y d) = drawnTexts d \<union> set cs"
  using drawCells_texts[of cs ws x y d]
  by (auto simp: drawnTexts_alt drawCells_fields image_Un)

lemma drawnTexts_addPage: "drawnTexts (addPage d) = drawnTexts d"
  by (auto simp: drawnTexts_alt addPage_def)

lemma drawnTexts_setBold: "drawnTexts (setBold b d) = drawnTexts d"
  by (auto simp: drawnTexts_alt setBold_def)

lemma six_cells:
  "length (pdfRow fmt r) \<le> length colWidths" "length pdfHeaders \<le> length colWidths"
  by (simp_all add: pdfRow_def colWidths_def pdfHeaders_def)

lemma drawRow_texts:
  "drawnTexts d \<union> set (pdfRow fmt r) \<subseteq> drawnTexts (fst (drawRow fmt ph (d, y) r))"
  by (auto simp: drawRow_def Let_def drawnTexts_drawCells six_cells
        drawnTexts_addPage drawnTexts_setBold split: prod.splits)

lemma foldl_drawRow_texts:
  "drawnTexts (fst s) \<union> (\<Union>r\<in>set rs. set (pdfRow fmt r))
     \<subseteq> drawnTexts (fst (foldl (drawRow fmt ph) s rs))"
proof (induction rs arbitrary: s)
  case Nil
  then show ?case by simp
next
  case (Cons r rs)
  obtain d y where s: "s = (d, y)" by (cases s)
  from drawRow_texts[of d fmt r ph y] Cons.IH[of "drawRow fmt ph s r"] s
  show ?case by auto
qed

lemma drawnTexts_withNote: "drawnTexts d \<subseteq> drawnTexts (withNote n d)"
  by (auto simp: drawnTexts_alt withNote_def addPage_def drawText_def setFontSize_def)

lemma pdf_first25:
  "pdfDocument fmt pw ph statistics rs =
     (if 25 < length rs then withNote (length rs) (pdfDocument fmt pw ph statistics (take 25 rs))
      else pdfDocument fmt pw ph statistics (take 25 rs))"
  by (simp add: pdfDocument_def Let_def split: prod.splits)

lemma pdf_rows_drawn:
  assumes "r \<in> set (take 25 rs)"
  shows "set (pdfRow fmt r) \<subseteq> drawnTexts (pdfDocument fmt pw ph statistics rs)"
proof -
  obtain d y where fold: "foldl (drawRow fmt ph) (pdfPreamble fmt pw statistics) (take 25 rs) = (d, y)"
    by (cases "foldl (drawRow fmt ph) (pdfPreamble fmt pw statistics) (take 25 rs)")
  from foldl_drawRow_texts[where s = "pdfPreamble fmt pw statistics" and rs = "take 25 rs" and fmt = fmt
         and ph = ph] assms fold
  have "set (pdfRow fmt r) \<subseteq> drawnTexts d" by auto
  with drawnTexts_withNote[of d "length rs"] fold show ?thesis
    by (auto simp: pdfDocument_def Let_def)
qed

lemma drawRow_bold: "bold (fst s) = False \<Longrightarrow> bold (fst (drawRow fmt ph s r)) = False"
  by (cases s) (simp add: drawRow_def Let_def drawCells_fields setBold_def split: prod.splits)

lemma foldl_drawRow_bold:
  "bold (fst s) = False \<Longrightarrow> bold (fst (foldl (drawRow fmt ph) s rs)) = False"
  by (induction rs arbitrary: s) (simp_all add: drawRow_bold)

lemma pdfPreamble_bold: "bold (fst (pdfPreamble fmt pw statistics)) = False"
  by (simp add: pdfPreamble_def Let_def setBold_def split: prod.splits)

lemma table_bold:
  "bold (fst (foldl (drawRow fmt ph) (pdfPreamble fmt pw statistics) rs)) = False"
  by (rule foldl_drawRow_bold[OF pdfPreamble_bold])

lemma pdf_note_page:
  assumes "25 < length rs"
  shows "last (pages (pdfDocument fmt pw ph statistics rs)) =
           [\<lparr>pt_text = units (''Note: Showing first 25 of '' @ showNat (length rs) @ '' reports''),
              pt_x = 20, pt_y = 20, pt_centered = False, pt_size = 12, pt_bold = False\<rparr>]"
proof -
  obtain d y where fold: "foldl (drawRow fmt ph) (pdfPreamble fmt pw statistics) (take 25 rs) = (d, y)"
    by (cases "foldl (drawRow fmt ph) (pdfPreamble fmt pw statistics) (take 25 rs)")
  from table_bold[of fmt ph pw statistics "take 25 rs"] fold
  have "bold d = False" by simp
  with assms fold show ?thesis
    by (simp add: pdfDocument_def Let_def withNote_def pages_def drawText_def addPage_def
          setFontSize_def noteText_def margin_def)
qed


text \<open>
  Claim C8, as amended. For every non-empty filtered report list, \<open>exportToCSV\<close> saves a
  CSV file whose content is the fixed six-column header followed, for each filtered report
  in order, by a line feed and the report's record, each cell of which is wrapped in
  double quotes (without escaping); its first line is the header, and provided no cell
  contains a line feed it has exactly one line per filtered report after the header line.
  \<open>exportToPDF\<close> saves a document that is the one for the first 25 filtered reports, with
  every cell of those reports' rows drawn, followed, when more than 25 exist, by one more
  page that holds only the note that the first 25 of the total are shown.
\<close>

theorem export_csv_pdf:
  "filteredReports st = rs \<and> rs \<noteq> [] \<longrightarrow>
     savedFiles (exportToCSV fmt st) =
       CsvFile (''reports_export_'' @ isoDate fmt @ ''.csv'') ''text/csv;charset=utf-8;''
         (csvContent fmt rs) # savedFiles st
     \<and> csvContent fmt rs =
         units ''Report ID,User Email,File Name,Confidence %,Result,Date''
         @ concat (map (\<lambda>r. 0x0A # quotedRecord fmt r) rs)
     \<and> hd (splitLines (csvContent fmt rs))
         = units ''Report ID,User Email,File Name,Confidence %,Result,Date''
     \<and> ((\<forall>r\<in>set rs. \<forall>cell\<in>set (csvRow fmt r). 0x0A \<notin> set cell) \<longrightarrow>
          splitLines (csvContent fmt rs)
            = units ''Report ID,User Email,File Name,Confidence %,Result,Date''
              # map (quotedRecord fmt) rs
          \<and> length (splitLines (csvContent fmt rs)) = 1 + length rs)
     \<and> savedFiles (exportToPDF fmt pageWidth pageHeight st) =
         PdfFile (''reports_export_'' @ isoDate fmt @ ''.pdf'')
           (pdfDocument fmt pageWidth pageHeight (stats st) rs) # savedFiles st
     \<and> pdfDocument fmt pageWidth pageHeight (stats st) rs =
         (if 25 < length rs
          then withNote (length rs) (pdfDocument fmt pageWidth pageHeight (stats st) (take 25 rs))
          else pdfDocument fmt pageWidth pageHeight (stats st) (take 25 rs))
     \<and> (\<forall>r\<in>set (take 25 rs).
           set (pdfRow fmt r) \<subseteq> drawnTexts (pdfDocument fmt pageWidth pageHeight (stats st) rs))
     \<and> (25 < length rs \<longrightarrow>
           last (pages (pdfDocument fmt pageWidth pageHeight (stats st) rs)) =
             [\<lparr>pt_text = units (''Note: Showing first 25 of '' @ showNat (length rs) @ '' reports''),
                pt_x = 20, pt_y = 20, pt_centered = False, pt_size = 12, pt_bold = False\<rparr>])"
proof (intro impI)
  assume a: "filteredReports st = rs \<and> rs \<noteq> []"
  have csv: "savedFiles (exportToCSV fmt st) =
       CsvFile (''reports_export_'' @ isoDate fmt @ ''.csv'') ''text/csv;charset=utf-8;''
         (csvContent fmt rs) # savedFiles st"
    using a by (simp add: exportToCSV_def)
  have pdf: "savedFiles (exportToPDF fmt pageWidth pageHeight st) =
         PdfFile (''reports_export_'' @ isoDate fmt @ ''.pdf'')
           (pdfDocument fmt pageWidth pageHeight (stats st) rs) # savedFiles st"
    using a by (simp add: exportToPDF_def)
  have lines: "(\<forall>r\<in>set rs. \<forall>cell\<in>set (csvRow fmt r). 0x0A \<notin> set cell) \<longrightarrow>
          splitLines (csvContent fmt rs)
            = units ''Report ID,User Email,File Name,Confidence %,Result,Date''
              # map (quotedRecord fmt) rs
          \<and> length (splitLines (csvContent fmt rs)) = 1 + length rs"
    by (simp add: csv_lines)
  from csv pdf lines csv_structure[of fmt rs] csv_first_line[of fmt rs]
    pdf_first25[of fmt pageWidth pageHeight "stats st" rs]
    pdf_rows_drawn[of _ rs fmt pageWidth pageHeight "stats st"]
    pdf_note_page[of rs fmt pageWidth pageHeight "stats st"]
  show "savedFiles (exportToCSV fmt st) =
       CsvFile (''reports_export_'' @ isoDate fmt @ ''.csv'') ''text/csv;charset=utf-8;''
         (csvContent fmt rs) # savedFiles st
     \<and> csvContent fmt rs =
         units ''Report ID,User Email,File Name,Confidence %,Result,Date''
         @ concat (map (\<lambda>r. 0x0A # quotedRecord fmt r) rs)
     \<and> hd (splitLines (csvContent fmt rs))
         = units ''Report ID,User Email,File Name,Confidence %,Result,Date''
     \<and> ((\<forall>r\<in>set rs. \<forall>cell\<in>set (csvRow fmt r). 0x0A \<notin> set cell) \<longrightarrow>
          splitLines (csvContent fmt rs)
            = units ''Report ID,User Email,File Name,Confidence %,Result,Date''
              # map (quotedRecord fmt) rs
          \<and> length (splitLines (csvContent fmt rs)) = 1 + length rs)
     \<and> savedFiles (exportToPDF fmt pageWidth pageHeight st) =
         PdfFile (''reports_export_'' @ isoDate fmt @ ''.pdf'')
           (pdfDocument fmt pageWidth pageHeight (stats st) rs) # savedFiles st
     \<and> pdfDocument fmt pageWidth pageHeight (stats st) rs =
         (if 25 < length rs
          then withNote (length rs) (pdfDocument fmt pageWidth pageHeight (stats st) (take 25 rs))
          else pdfDocument fmt pageWidth pageHeight (stats st) (take 25 rs))
     \<and> (\<forall>r\<in>set (take 25 rs).
           set (pdfRow fmt r) \<subseteq> drawnTexts (pdfDocument fmt pageWidth pageHeight (stats st) rs))
     \<and> (25 < length rs \<longrightarrow>
           last (pages (pdfDocument fmt pageWidth pageHeight (stats st) rs)) =
             [\<lparr>pt_text = units (''Note: Showing first 25 of '' @ showNat (length rs) @ '' reports''),
                pt_x = 20, pt_y = 20, pt_centered = False, pt_size = 12, pt_bold = False\<rparr>])"
    by blast
qed

theorem export_csv_pdf_witness:
  "filteredReports (exportState [clipReport]) = [clipReport]
   \<and> length (splitLines (csvContent natFormats [clipReport])) = 2
   \<and> hd (splitLines (csvContent natFormats [clipReport]))
       = units ''Report ID,User Email,File Name,Confidence %,Result,Date''
   \<and> filteredReports (exportState (replicate 26 clipReport)) = replicate 26 clipReport
   \<and> 25 < length (replicate 26 clipReport)
   \<and> last (pages (pdfDocument natFormats 210 297 None (replicate 26 clipReport))) =
       [\<lparr>pt_text = units ''Note: Showing first 25 of 26 reports'',
          pt_x = 20, pt_y = 20, pt_centered = False, pt_size = 12, pt_bold = False\<rparr>]"
proof -
  have one: "filteredReports (exportState [clipReport]) = [clipReport] \<and> [clipReport] \<noteq> []"
    by (simp add: exportState_def)
  have clean: "\<forall>r\<in>set [clipReport]. \<forall>cell\<in>set (csvRow natFormats r). 0x0A \<notin> set cell"
    by (simp add: csvRow_def natFormats_def clipReport_def showNat.simps digitChar_def
          units_def unit_def)
  have many: "filteredReports (exportState (replicate 26 clipReport)) = replicate 26 clipReport
              \<and> replicate 26 clipReport \<noteq> []"
    "stats (exportState (replicate 26 clipReport)) = None"
    by (simp_all add: exportState_def)
  have n: "showNat 26 = ''26''" by (simp add: showNat.simps digitChar_def)
  from export_csv_pdf[where st = "exportState [clipReport]" and rs = "[clipReport]"
         and fmt = natFormats] one clean
  have "hd (splitLines (csvContent natFormats [clipReport]))
          = units ''Report ID,User Email,File Name,Confidence %,Result,Date''
        \<and> length (splitLines (csvContent natFormats [clipReport])) = 1 + length [clipReport]"
    by blast
  then have a: "length (splitLines (csvContent natFormats [clipReport])) = 2"
    "hd (splitLines (csvContent natFormats [clipReport]))
       = units ''Report ID,User Email,File Name,Confidence %,Result,Date''"
    by simp_all
  from export_csv_pdf[where st = "exportState (replicate 26 clipReport)"
         and rs = "replicate 26 clipReport" and fmt = natFormats and pageWidth = 210
         and pageHeight = 297] many(1)
  have "25 < length (replicate 26 clipReport) \<longrightarrow>
        last (pages (pdfDocument natFormats 210 297 (stats (exportState (replicate 26 clipReport)))
                       (replicate 26 clipReport))) =
          [\<lparr>pt_text = units (''Note: Showing first 25 of ''
                              @ showNat (length (replicate 26 clipReport)) @ '' reports''),
             pt_x = 20, pt_y = 20, pt_centered = False, pt_size = 12, pt_bold = False\<rparr>]"
    by blast
  with many(2) n
  have b: "last (pages (pdfDocument natFormats 210 297 None (replicate 26 clipReport))) =
       [\<lparr>pt_text = units ''Note: Showing first 25 of 26 reports'',
          pt_x = 20, pt_y = 20, pt_centered = False, pt_size = 12, pt_bold = False\<rparr>]"
    by simp
  from one many a b show ?thesis by simp
qed

text \<open>
  The claim as stated promises one line per filtered report for every list. A single
  report whose file name holds a line feed makes a CSV of three lines: the cells are
  quoted but not escaped.
\<close>

theorem csv_line_feed_counterexample:
  "length (filteredReports (exportState [brokenNameReport])) = 1
   \<and> savedFiles (exportToCSV natFormats (exportState [brokenNameReport])) =
       [CsvFile ''reports_export_2024-05-01.csv'' ''text/csv;charset=utf-8;''
          (csvContent natFormats [brokenNameReport])]
   \<and> length (splitLines (csvContent natFormats [brokenNameReport])) = 3"
  by (simp add: exportState_def exportToCSV_def natFormats_def csvContent_def csvHeaders_def
        csvRow_def quoteCell_def brokenNameReport_def clipReport_def showNat.simps digitChar_def
        units_def unit_def)

section \<open>Properties of deleting a report\<close>

text \<open>What the modelled backend makes of the two service calls.\<close>

lemma deleteReport_served:
  "serve (reportsBackend eng selects) (AdminApiService_deleteReport eng rid uid) db =
     (\<lparr>returned = Inr (JObj [(''status'', JStr ''success''),
                              (''message'', JStr ''Report deleted successfully'')]),
       fetched = [\<lparr>req_url = deletePrefix @ rid, req_method = Some ''DELETE'',
                    req_headers = jsonHeaders,
                    req_body = Some (JsonText (JObj [(''admin_id'', JStr uid)]))\<rparr>]\<rparr>,
      filter (\<lambda>row. propText eng row ''id'' \<noteq> rid) db)"
  by (simp add: serve_def AdminApiService_deleteReport_def reportsBackend_def Let_def
        deletePrefix_def jsonResponse_def afterFetchDetailed_def responseJson_def catchReport_def)

lemma listPrefix_url: "take (length listPrefix) (adminReportsUrl uid f) = listPrefix"
  by (simp add: adminReportsUrl_def listPrefix_def API_BASE_URL_def)

lemma getAllReports_served:
  "serve (reportsBackend eng selects) (AdminApiService_getAllReports eng uid f) db =
     (\<lparr>returned = Inr (JObj [(''status'', JStr ''success''),
                              (''reports'', JArr (filter (selects (adminReportsUrl uid f)) db))]),
       fetched = [\<lparr>req_url = adminReportsUrl uid f, req_method = Some ''GET'',
                    req_headers = jsonHeaders, req_body = None\<rparr>]\<rparr>,
      db)"
  by (simp add: serve_def AdminApiService_getAllReports_def reportsBackend_def Let_def
        listPrefix_url jsonResponse_def afterFetchDetailed_def responseJson_def catchReport_def)

lemma fetchReports_served:
  "ap_user st = Some u \<Longrightarrow> auth_id u \<noteq> [] \<Longrightarrow>
   fetchReports eng (reportsBackend eng selects) (st, db) =
     (st\<lparr>reports := JArr (filter (selects (adminReportsUrl (auth_id u) (Some (pageFilters st)))) db),
         ap_isLoading := False\<rparr>, db)"
  by (simp add: fetchReports_def getAllReports_served)

text \<open>
  Claim C4, against the backend modelled from the spec. For every report selected on the
  admin page of a signed-in admin, after \<open>handleDeleteReport\<close> has deleted it through
  \<open>AdminApiService.deleteReport\<close> (which the backend answers with success) and has
  refetched the listing through \<open>fetchReports\<close>, the page's reports list is an array of
  rows of the database none of which has the deleted report's id; no such row is left in
  the database either, and the selection is cleared.
\<close>

theorem deleted_report_not_listed:
  "ap_user st = Some u \<and> auth_id u \<noteq> [] \<and> selectedReport st = Some r \<and> truthy eng r \<longrightarrow>
     (\<exists>listed.
        reports (fst (handleDeleteReport eng (reportsBackend eng selects) (st, db))) = JArr listed
        \<and> (\<forall>x\<in>set listed. propText eng x ''id'' \<noteq> propText eng r ''id'')
        \<and> set listed \<subseteq> set db)
     \<and> (\<forall>x\<in>set (snd (handleDeleteReport eng (reportsBackend eng selects) (st, db))).
           propText eng x ''id'' \<noteq> propText eng r ''id'')
     \<and> selectedReport (fst (handleDeleteReport eng (reportsBackend eng selects) (st, db))) = None"
proof (intro impI)
  assume a: "ap_user st = Some u \<and> auth_id u \<noteq> [] \<and> selectedReport st = Some r \<and> truthy eng r"
  let ?st1 = "st\<lparr>ap_sonner := (checkMark @ '' Report deleted successfully'', None) # ap_sonner st,
                 ap_toasts := \<lparr>toast_title = ''Success'',
                                toast_description = ''Report deleted successfully'',
                                toast_variant = ''default''\<rparr> # ap_toasts st\<rparr>"
  let ?db1 = "filter (\<lambda>row. propText eng row ''id'' \<noteq> propText eng r ''id'') db"
  let ?listed = "filter (selects (adminReportsUrl (auth_id u) (Some (pageFilters ?st1)))) ?db1"
  from a have u1: "ap_user ?st1 = Some u" by simp
  from a have run: "handleDeleteReport eng (reportsBackend eng selects) (st, db) =
      (?st1\<lparr>reports := JArr ?listed, ap_isLoading := False, selectedReport := None,
            showDeleteDialog := False, isDeleting := False\<rparr>, ?db1)"
    using fetchReports_served[OF u1, of eng selects ?db1]
    by (simp add: handleDeleteReport_def deleteReport_served)
  show "(\<exists>listed.
        reports (fst (handleDeleteReport eng (reportsBackend eng selects) (st, db))) = JArr listed
        \<and> (\<forall>x\<in>set listed. propText eng x ''id'' \<noteq> propText eng r ''id'')
        \<and> set listed \<subseteq> set db)
     \<and> (\<forall>x\<in>set (snd (handleDeleteReport eng (reportsBackend eng selects) (st, db))).
           propText eng x ''id'' \<noteq> propText eng r ''id'')
     \<and> selectedReport (fst (handleDeleteReport eng (reportsBackend eng selects) (st, db))) = None"
    unfolding run by auto
qed

theorem deleted_report_not_listed_witness:
  "ap_user adminPage = Some ann \<and> auth_id ann = ''u1''
   \<and> selectedReport adminPage = Some rowOne \<and> truthy natEngine rowOne
   \<and> propText natEngine rowOne ''id'' = ''r1''
   \<and> reports (fst (handleDeleteReport natEngine (reportsBackend natEngine selectAll)
                      (adminPage, [rowOne, rowTwo]))) = JArr [rowTwo]
   \<and> propText natEngine rowTwo ''id'' = ''r2''
   \<and> snd (handleDeleteReport natEngine (reportsBackend natEngine selectAll)
            (adminPage, [rowOne, rowTwo])) = [rowTwo]
   \<and> selectedReport (fst (handleDeleteReport natEngine (reportsBackend natEngine selectAll)
                             (adminPage, [rowOne, rowTwo]))) = None"
proof -
  have hyp: "ap_user adminPage = Some ann \<and> auth_id ann \<noteq> []
             \<and> selectedReport adminPage = Some rowOne \<and> truthy natEngine rowOne"
    by (simp add: adminPage_def ann_def rowOne_def)
  have ids: "auth_id ann = ''u1''" "propText natEngine rowOne ''id'' = ''r1''"
    "propText natEngine rowTwo ''id'' = ''r2''"
    by (simp_all add: ann_def propText_def rowOne_def rowTwo_def)
  have run: "reports (fst (handleDeleteReport natEngine (reportsBackend natEngine selectAll)
                      (adminPage, [rowOne, rowTwo]))) = JArr [rowTwo]"
    "snd (handleDeleteReport natEngine (reportsBackend natEngine selectAll)
            (adminPage, [rowOne, rowTwo])) = [rowTwo]"
    using hyp ids
    by (simp_all add: handleDeleteReport_def deleteReport_served fetchReports_def
          getAllReports_served adminPage_def selectAll_def)
  from deleted_report_not_listed[where st = adminPage and u = ann and r = rowOne
         and eng = natEngine and selects = selectAll and db = "[rowOne, rowTwo]"] hyp
  have "selectedReport (fst (handleDeleteReport natEngine (reportsBackend natEngine selectAll)
                             (adminPage, [rowOne, rowTwo]))) = None"
    by blast
  with hyp ids run show ?thesis by simp
qed

end
